theory Spec2Isabelle
  imports Main
begin

section \<open>Python strings\<close>

text \<open>
  Python \<open>str\<close> values are modelled as HOL strings whose characters are the code points
  below 256. The functions below are the string methods that \<open>main.py\<close> calls.
\<close>

fun startswith :: "string \<Rightarrow> string \<Rightarrow> bool" where
  "startswith s [] = True"
| "startswith [] (p # ps) = False"
| "startswith (c # cs) (p # ps) = (c = p \<and> startswith cs ps)"

text \<open>\<open>s.split(sep)\<close> for a one-character separator: never the empty list.\<close>

fun str_split :: "char \<Rightarrow> string \<Rightarrow> string list" where
  "str_split sep [] = [[]]"
| "str_split sep (c # cs) =
     (if c = sep then [] # str_split sep cs
      else (case str_split sep cs of
              [] \<Rightarrow> [[c]]
            | p # ps \<Rightarrow> (c # p) # ps))"

text \<open>
  \<open>s.lower()\<close>: the capital letters A to Z and the capital letters of the Latin-1 block
  (code points 192 to 222 without the multiplication sign 215) are replaced by their small
  letters, 32 code points higher; every other code point below 256 is its own lowercase.
\<close>

definition ascii_uppercase :: string where
  "ascii_uppercase = ''ABCDEFGHIJKLMNOPQRSTUVWXYZ''"

definition ascii_lowercase :: string where
  "ascii_lowercase = ''abcdefghijklmnopqrstuvwxyz''"

definition latin1_uppercase :: string where
  "latin1_uppercase =
     [CHR 0xC0, CHR 0xC1, CHR 0xC2, CHR 0xC3, CHR 0xC4, CHR 0xC5, CHR 0xC6, CHR 0xC7,
      CHR 0xC8, CHR 0xC9, CHR 0xCA, CHR 0xCB, CHR 0xCC, CHR 0xCD, CHR 0xCE, CHR 0xCF,
      CHR 0xD0, CHR 0xD1, CHR 0xD2, CHR 0xD3, CHR 0xD4, CHR 0xD5, CHR 0xD6, CHR 0xD8,
      CHR 0xD9, CHR 0xDA, CHR 0xDB, CHR 0xDC, CHR 0xDD, CHR 0xDE]"

definition latin1_lowercase :: string where
  "latin1_lowercase =
     [CHR 0xE0, CHR 0xE1, CHR 0xE2, CHR 0xE3, CHR 0xE4, CHR 0xE5, CHR 0xE6, CHR 0xE7,
      CHR 0xE8, CHR 0xE9, CHR 0xEA, CHR 0xEB, CHR 0xEC, CHR 0xED, CHR 0xEE, CHR 0xEF,
      CHR 0xF0, CHR 0xF1, CHR 0xF2, CHR 0xF3, CHR 0xF4, CHR 0xF5, CHR 0xF6, CHR 0xF8,
      CHR 0xF9, CHR 0xFA, CHR 0xFB, CHR 0xFC, CHR 0xFD, CHR 0xFE]"

definition lower_char :: "char \<Rightarrow> char" where
  "lower_char c =
     (case map_of (zip (ascii_uppercase @ latin1_uppercase)
                       (ascii_lowercase @ latin1_lowercase)) c of
        Some l \<Rightarrow> l
      | None \<Rightarrow> c)"

definition lower :: "string \<Rightarrow> string" where
  "lower s = map lower_char s"

text \<open>The decimal digit \<open>d\<close> (below ten) as a character.\<close>

definition digit_char :: "nat \<Rightarrow> char" where
  "digit_char d = ''0123456789'' ! d"

text \<open>\<open>str(n)\<close> for a non-negative integer: its decimal digits, most significant first.\<close>

function str_nat :: "nat \<Rightarrow> string" where
  "str_nat n = (if n < 10 then [digit_char n] else str_nat (n div 10) @ [digit_char (n mod 10)])"
  by pat_completeness auto
termination
  by (relation "measure id") auto

declare str_nat.simps [simp del]

text \<open>\<open>s.zfill(width)\<close>: zeros go to the left, after a leading sign if there is one.\<close>

definition zfill :: "nat \<Rightarrow> string \<Rightarrow> string" where
  "zfill width s =
     (let pad = replicate (width - length s) (CHR ''0'')
      in case s of
           [] \<Rightarrow> pad
         | c # cs \<Rightarrow> if c = CHR ''+'' \<or> c = CHR ''-'' then c # pad @ cs else pad @ s)"

section \<open>Images and documents\<close>

text \<open>
  A raster image is known by how it was made: the symbol the QR encoder rendered (payload,
  version, \<open>box_size\<close>, \<open>border\<close>), an image resampled to a requested width and height, or
  an image that was uploaded (its width, height and pixel data).
\<close>

datatype picture =
    QRSymbol string nat nat nat
  | Resampled picture int int
  | Bitmap nat nat "nat list"

text \<open>
  The pixel size of an image. The encoder renders a symbol of version \<open>v\<close> with
  \<open>4 * v + 17\<close> modules a side, plus the border on both sides, each module \<open>box_size\<close>
  pixels wide.
\<close>

fun picture_size :: "picture \<Rightarrow> int \<times> int" where
  "picture_size (QRSymbol payload v box_size border) =
     (int ((4 * v + 17 + 2 * border) * box_size), int ((4 * v + 17 + 2 * border) * box_size))"
| "picture_size (Resampled img w h) = (w, h)"
| "picture_size (Bitmap w h px) = (int w, int h)"

datatype alignment = LEFT | CENTER | RIGHT

text \<open>
  Lengths: \<open>Inches x\<close> is kept in hundredths of an inch and \<open>Pt n\<close> in points.
\<close>

record run =
  r_text :: string
  r_bold :: bool
  r_size :: "nat option"
  r_color :: "(nat \<times> nat \<times> nat) option"
  r_underline :: bool
  r_picture :: "(picture \<times> nat) option"

record para =
  p_alignment :: "alignment option"
  p_runs :: "run list"

text \<open>
  The children that the code appends to a cell's properties: one element per edge from
  \<open>set_cell_border\<close> (tag, \<open>w:val\<close>, \<open>w:sz\<close>, \<open>w:space\<close>, \<open>w:color\<close>), or a whole
  \<open>w:tcBorders\<close> element with its children (tag, \<open>w:val\<close>).
\<close>

datatype tc_property =
    Edge string string string string string
  | TcBorders "(string \<times> string) list"

record cell =
  c_paragraphs :: "para list"
  c_width :: "nat option"
  c_tcPr :: "tc_property list"

record table =
  t_style :: "string option"
  t_autofit :: bool
  t_rows :: "cell list list"

datatype block = Paragraph para | Table table

record document =
  d_margins :: "(nat \<times> nat \<times> nat \<times> nat) option"
  d_body :: "block list"

definition new_run :: "string \<Rightarrow> run" where
  "new_run s = \<lparr>r_text = s, r_bold = False, r_size = None, r_color = None,
                r_underline = False, r_picture = None\<rparr>"

definition new_paragraph :: para where
  "new_paragraph = \<lparr>p_alignment = None, p_runs = []\<rparr>"

definition new_cell :: cell where
  "new_cell = \<lparr>c_paragraphs = [new_paragraph], c_width = None, c_tcPr = []\<rparr>"

text \<open>\<open>doc.add_table(rows, cols)\<close>: every cell starts with one empty paragraph.\<close>

definition add_table :: "nat \<Rightarrow> nat \<Rightarrow> table" where
  "add_table rows cols =
     \<lparr>t_style = None, t_autofit = True, t_rows = replicate rows (replicate cols new_cell)\<rparr>"

text \<open>
  \<open>cell.text = s\<close> clears the cell's content and leaves one paragraph holding one run
  with the text; the cell's properties stay.
\<close>

definition set_cell_text :: "cell \<Rightarrow> string \<Rightarrow> cell" where
  "set_cell_text c s = c\<lparr>c_paragraphs := [\<lparr>p_alignment = None, p_runs = [new_run s]\<rparr>]\<rparr>"

text \<open>The reading side, \<open>paragraph.text\<close> and \<open>cell.text\<close>.\<close>

definition paragraph_text :: "para \<Rightarrow> string" where
  "paragraph_text p = concat (map r_text (p_runs p))"

fun join_lines :: "string list \<Rightarrow> string" where
  "join_lines [] = []"
| "join_lines [l] = l"
| "join_lines (l # ls) = l @ CHR 0x0A # join_lines ls"

definition cell_text :: "cell \<Rightarrow> string" where
  "cell_text c = join_lines (map paragraph_text (c_paragraphs c))"

text \<open>\<open>doc.tables\<close>: the tables among the blocks of a body, in order.\<close>

fun doc_tables :: "block list \<Rightarrow> table list" where
  "doc_tables [] = []"
| "doc_tables (Paragraph p # bs) = doc_tables bs"
| "doc_tables (Table t # bs) = t # doc_tables bs"

section \<open>Files and exceptions\<close>

datatype image_format = PNG | JPEG

text \<open>
  What a file holds: an image in some format, a saved document, or bytes that no image
  decoder accepts.
\<close>

datatype content =
    ImageFile image_format picture
  | DocxFile document
  | Bytes "nat list"

text \<open>
  The working directory. Opening a path for writing, completing a write to an opened path
  (the disk may be full) and removing a path fail on the paths the operating system
  refuses; those are part of the state.
\<close>

record filesystem =
  files :: "string \<rightharpoonup> content"
  can_write :: "string \<Rightarrow> bool"
  write_completes :: "string \<Rightarrow> bool"
  can_remove :: "string \<Rightarrow> bool"

text \<open>
  The exceptions that can travel through \<open>main.py\<close>. \<open>HTTPException\<close> is the framework's
  exception class, itself a subclass of \<open>Exception\<close>. Its detail is either a literal
  message or an f-string that ends in \<open>str(e)\<close> of a caught exception \<open>e\<close>.
\<close>

datatype exn =
    HTTPException nat detail
  | AttributeError
  | OSError
  | FileNotFoundError
  | UnidentifiedImageError
  | UnrecognizedImageError
  | DataOverflowError
  | ValueError
  | IndexError
and detail =
    Literal string
  | Formatted string exn

fun status_code :: "exn \<Rightarrow> nat option" where
  "status_code (HTTPException code d) = Some code"
| "status_code e = None"

definition path_exists :: "filesystem \<Rightarrow> string \<Rightarrow> bool" where
  "path_exists fs path = (files fs path \<noteq> None)"

text \<open>
  \<open>open(path, "wb")\<close> followed by writing the content, as the \<open>with\<close> blocks and the
  \<open>save\<close> calls do. Three outcomes: \<open>open\<close> raises and nothing is created; \<open>open\<close> has
  created or emptied the file and the write or the close raises, which leaves the file on
  disk, here empty; or the whole content is written. The result is the file system
  afterwards and the exception, if any.
\<close>

definition write_file :: "filesystem \<Rightarrow> string \<Rightarrow> content \<Rightarrow> filesystem \<times> exn option" where
  "write_file fs path data =
     (if \<not> can_write fs path then (fs, Some OSError)
      else if \<not> write_completes fs path
           then (fs\<lparr>files := (files fs)(path \<mapsto> Bytes [])\<rparr>, Some OSError)
           else (fs\<lparr>files := (files fs)(path \<mapsto> data)\<rparr>, None))"

definition os_remove :: "filesystem \<Rightarrow> string \<Rightarrow> exn + filesystem" where
  "os_remove fs path =
     (if files fs path = None then Inl FileNotFoundError
      else if can_remove fs path then Inr (fs\<lparr>files := (files fs)(path := None)\<rparr>)
      else Inl OSError)"

text \<open>\<open>Image.open(path)\<close> of the imaging library: the picture a file holds.\<close>

definition Image_open :: "filesystem \<Rightarrow> string \<Rightarrow> exn + picture" where
  "Image_open fs path =
     (case files fs path of
        None \<Rightarrow> Inl FileNotFoundError
      | Some (ImageFile fmt img) \<Rightarrow> Inr img
      | Some (DocxFile d) \<Rightarrow> Inl UnidentifiedImageError
      | Some (Bytes bs) \<Rightarrow> Inl UnidentifiedImageError)"

text \<open>\<open>run.add_picture(path, width)\<close> of the document library.\<close>

definition add_picture :: "filesystem \<Rightarrow> string \<Rightarrow> nat \<Rightarrow> run \<Rightarrow> exn + run" where
  "add_picture fs path width r =
     (case files fs path of
        None \<Rightarrow> Inl FileNotFoundError
      | Some (ImageFile fmt img) \<Rightarrow> Inr (r\<lparr>r_picture := Some (img, width)\<rparr>)
      | Some (DocxFile d) \<Rightarrow> Inl UnrecognizedImageError
      | Some (Bytes bs) \<Rightarrow> Inl UnrecognizedImageError)"

section \<open>The logo upload\<close>

record upload_file =
  uf_filename :: "string option"
  uf_content_type :: "string option"
  uf_file :: content

record upload_response =
  ur_message :: string
  ur_filename :: string

text \<open>The body of the \<open>try\<close> block of \<open>upload_logo\<close>.\<close>

definition upload_logo_try :: "filesystem \<Rightarrow> upload_file \<Rightarrow> filesystem \<times> (exn + upload_response)" where
  "upload_logo_try fs file =
     (case uf_content_type file of
        None \<Rightarrow> (fs, Inl AttributeError)
      | Some content_type \<Rightarrow>
          if \<not> startswith content_type ''image/''
          then (fs, Inl (HTTPException 400 (Literal ''File must be an image'')))
          else
            (case uf_filename file of
               None \<Rightarrow> (fs, Inl AttributeError)
             | Some filename \<Rightarrow>
                 let ext = lower (last (str_split (CHR ''.'') filename))
                 in if ext \<notin> set [''png'', ''jpg'', ''jpeg'']
                    then (fs, Inl (HTTPException 400 (Literal ''Only PNG, JPG, JPEG files allowed'')))
                    else
                      let logo_path = ''college_logo.'' @ ext
                      in (case write_file fs logo_path (uf_file file) of
                            (fs1, Some e) \<Rightarrow> (fs1, Inl e)
                          | (fs1, None) \<Rightarrow>
                              if ext \<in> set [''jpg'', ''jpeg'']
                              then
                                (case Image_open fs1 logo_path of
                                   Inl e \<Rightarrow> (fs1, Inl e)
                                 | Inr img \<Rightarrow>
                                     (case write_file fs1 ''college_logo.png'' (ImageFile PNG img) of
                                        (fs2, Some e) \<Rightarrow> (fs2, Inl e)
                                      | (fs2, None) \<Rightarrow>
                                          (case os_remove fs2 logo_path of
                                             Inl e \<Rightarrow> (fs2, Inl e)
                                           | Inr fs3 \<Rightarrow>
                                               (fs3, Inr \<lparr>ur_message = ''Logo uploaded successfully'',
                                                          ur_filename = ''college_logo.png''\<rparr>))))
                              else (fs1, Inr \<lparr>ur_message = ''Logo uploaded successfully'',
                                              ur_filename = logo_path\<rparr>))))"

text \<open>
  \<open>upload_logo\<close> with its handler: \<open>except Exception as e\<close> catches every exception raised
  in the block, \<open>HTTPException\<close> included, and raises a 500 in its place.
\<close>

definition upload_logo :: "filesystem \<Rightarrow> upload_file \<Rightarrow> filesystem \<times> (exn + upload_response)" where
  "upload_logo fs file =
     (case upload_logo_try fs file of
        (fs', Inl e) \<Rightarrow> (fs', Inl (HTTPException 500 (Formatted ''Error uploading logo: '' e)))
      | (fs', Inr response) \<Rightarrow> (fs', Inr response))"

section \<open>The QR code image\<close>

text \<open>
  \<open>create_qr_code(url, size)\<close>. The encoder starts at version 1 and \<open>make(fit=True)\<close> moves
  to the smallest version that holds the data; the encoder's capacity rule is the parameter
  \<open>best_fit\<close>, which is \<open>None\<close> where the data fits no version and the encoder raises.
  The symbol is rendered with \<open>box_size = 10\<close> and \<open>border = 2\<close>, resampled to
  \<open>(size, size)\<close>, which the imaging library refuses for a size that is not positive, and
  saved as PNG.
\<close>

definition create_qr_code :: "(string \<Rightarrow> nat option) \<Rightarrow> string \<Rightarrow> int \<Rightarrow> exn + content" where
  "create_qr_code best_fit url size_px =
     (case best_fit url of
        None \<Rightarrow> Inl DataOverflowError
      | Some version \<Rightarrow>
          let img = QRSymbol url version 10 2
          in if size_px \<le> 0 then Inl ValueError
             else Inr (ImageFile PNG (Resampled img size_px size_px)))"

section \<open>The document generation\<close>

record Experiment =
  e_title :: string
  e_date :: string
  e_github :: string

record RecordData =
  course_title :: string
  student_name :: string
  register_number :: string
  experiments :: "Experiment list"

record file_response =
  fr_path :: string
  fr_filename :: string
  fr_media_type :: string

text \<open>
  \<open>set_cell_border(cell, **kwargs)\<close>: for each of the edges top, left, bottom, right, in
  that order, that has a value among the keyword arguments, one element is appended.
\<close>

definition set_cell_border :: "cell \<Rightarrow> string list \<Rightarrow> cell" where
  "set_cell_border c kwargs =
     c\<lparr>c_tcPr := c_tcPr c @
          map (\<lambda>(edge, tag). Edge tag ''single'' ''4'' ''0'' ''000000'')
              (filter (\<lambda>(edge, tag). edge \<in> set kwargs)
                 [(''top'', ''tcTop''), (''left'', ''tcLeft''),
                  (''bottom'', ''tcBottom''), (''right'', ''tcRight'')])\<rparr>"

definition all_edges :: "string list" where
  "all_edges = [''top'', ''bottom'', ''left'', ''right'']"

definition logo_files :: "string list" where
  "logo_files = [''college_logo.png'', ''college_logo.jpg'', ''college_logo.jpeg'']"

text \<open>
  The loop over \<open>logo_files\<close>: the first file that exists is embedded, 7 inches wide, in a
  centered paragraph, and the loop ends there. The result is the blocks added and
  \<open>logo_exists\<close>.
\<close>

fun add_logo :: "filesystem \<Rightarrow> string list \<Rightarrow> exn + (block list \<times> bool)" where
  "add_logo fs [] = Inr ([], False)"
| "add_logo fs (logo_file # rest) =
     (if path_exists fs logo_file
      then (case add_picture fs logo_file 700 (new_run []) of
              Inl e \<Rightarrow> Inl e
            | Inr r \<Rightarrow> Inr ([Paragraph \<lparr>p_alignment = Some CENTER, p_runs = [r]\<rparr>], True))
      else add_logo fs rest)"

definition headers :: "string list" where
  "headers = [''Exp'', ''Date'', ''Name of The Experiment'', ''QR Code'', ''Mark'', ''Signature'']"

definition widths :: "nat list" where
  "widths = [50, 80, 300, 80, 60, 100]"

definition header_cell :: "cell \<Rightarrow> string \<Rightarrow> cell" where
  "header_cell c header =
     (let c = set_cell_text c header;
          c = c\<lparr>c_paragraphs :=
                 map (\<lambda>p. p\<lparr>p_runs := map (\<lambda>r. r\<lparr>r_bold := True, r_size := Some 11\<rparr>) (p_runs p),
                             p_alignment := Some CENTER\<rparr>)
                     (c_paragraphs c)\<rparr>
      in set_cell_border c all_edges)"

text \<open>
  \<open>cell.paragraphs[0].alignment = a\<close>. Where the code reads \<open>paragraphs[0]\<close> the cell
  has just been created or given a text, so it has a paragraph; the empty case is only
  there to make the function total.
\<close>

definition set_first_alignment :: "cell \<Rightarrow> alignment \<Rightarrow> cell" where
  "set_first_alignment c a =
     c\<lparr>c_paragraphs := (case c_paragraphs c of
                           [] \<Rightarrow> []
                         | p # ps \<Rightarrow> p\<lparr>p_alignment := Some a\<rparr> # ps)\<rparr>"

text \<open>
  The title cell: the first paragraph's text becomes the title, followed by a run with two
  line breaks and a run with the link, 9 pt, blue and underlined.
\<close>

definition title_cell :: "cell \<Rightarrow> Experiment \<Rightarrow> cell" where
  "title_cell c exp =
     c\<lparr>c_paragraphs :=
          (case c_paragraphs c of
             [] \<Rightarrow> []
           | p # ps \<Rightarrow>
               p\<lparr>p_runs := [new_run (e_title exp), new_run [CHR 0x0A, CHR 0x0A],
                             (new_run (e_github exp))\<lparr>r_size := Some 9, r_color := Some (0, 0, 255),
                                                       r_underline := True\<rparr>]\<rparr> # ps)\<rparr>"

text \<open>
  The QR cell: the text is cleared, the paragraph centered, and a new run takes the picture,
  0.75 inches wide.
\<close>

definition qr_cell :: "cell \<Rightarrow> run \<Rightarrow> cell" where
  "qr_cell c picture_run =
     (let c = set_first_alignment (set_cell_text c []) CENTER
      in c\<lparr>c_paragraphs := (case c_paragraphs c of
                               [] \<Rightarrow> []
                             | p # ps \<Rightarrow> p\<lparr>p_runs := p_runs p @ [picture_run]\<rparr> # ps)\<rparr>)"

definition qr_filename :: "nat \<Rightarrow> string" where
  "qr_filename idx = ''qr_'' @ str_nat idx @ ''.png''"

text \<open>
  One pass of the loop over \<open>enumerate(data.experiments)\<close>: the state is the file system,
  the list \<open>qr_images\<close> and the rows of the table; an exception leaves the loop with the
  file system and the list as they are at that point. The name of the QR file joins
  \<open>qr_images\<close> after the \<open>with\<close> block that writes it, so not when that block raises.
  A row or cell index out of range raises where the statement that reads it stands: the
  first three cells before the QR code is made, the fourth after its file is written and
  recorded, the last two after the picture is embedded.
\<close>

definition fill_row ::
  "(string \<Rightarrow> nat option) \<Rightarrow> nat \<Rightarrow> Experiment \<Rightarrow> filesystem \<Rightarrow> string list \<Rightarrow> cell list list
     \<Rightarrow> filesystem \<times> string list \<times> (exn + cell list list)" where
  "fill_row best_fit idx exp fs qr_images rows =
     (if length rows \<le> idx + 1 then (fs, qr_images, Inl IndexError)
      else
        let cells = rows ! (idx + 1)
        in if length cells < 3 then (fs, qr_images, Inl IndexError)
           else
             let cells = cells[0 := set_first_alignment
                                      (set_cell_text (cells ! 0) (zfill 2 (str_nat (idx + 1)))) CENTER];
                 cells = cells[1 := set_cell_text (cells ! 1)
                                      (if e_date exp \<noteq> [] then e_date exp else [])];
                 cells = cells[2 := title_cell (cells ! 2) exp]
             in (case create_qr_code best_fit (e_github exp) 150 of
                   Inl e \<Rightarrow> (fs, qr_images, Inl e)
                 | Inr qr_img_data \<Rightarrow>
                     (case write_file fs (qr_filename idx) qr_img_data of
                        (fs1, Some e) \<Rightarrow> (fs1, qr_images, Inl e)
                      | (fs1, None) \<Rightarrow>
                          let qr_images = qr_images @ [qr_filename idx]
                          in if length cells < 4 then (fs1, qr_images, Inl IndexError)
                             else
                               (case add_picture fs1 (qr_filename idx) 75 (new_run []) of
                                  Inl e \<Rightarrow> (fs1, qr_images, Inl e)
                                | Inr r \<Rightarrow>
                                    if length cells < 6 then (fs1, qr_images, Inl IndexError)
                                    else
                                      let cells = cells[3 := qr_cell (cells ! 3) r];
                                          cells = cells[4 := set_cell_text (cells ! 4) []];
                                          cells = cells[5 := set_cell_text (cells ! 5) []];
                                          cells = map (\<lambda>c. set_cell_border c all_edges) cells
                                      in (fs1, qr_images, Inr (rows[idx + 1 := cells]))))))"

fun fill_rows ::
  "(string \<Rightarrow> nat option) \<Rightarrow> nat \<Rightarrow> Experiment list \<Rightarrow> filesystem \<Rightarrow> string list \<Rightarrow> cell list list
     \<Rightarrow> filesystem \<times> string list \<times> (exn + cell list list)" where
  "fill_rows best_fit idx [] fs qr_images rows = (fs, qr_images, Inr rows)"
| "fill_rows best_fit idx (exp # exps) fs qr_images rows =
     (case fill_row best_fit idx exp fs qr_images rows of
        (fs1, qr_images1, Inl e) \<Rightarrow> (fs1, qr_images1, Inl e)
      | (fs1, qr_images1, Inr rows1) \<Rightarrow> fill_rows best_fit (idx + 1) exps fs1 qr_images1 rows1)"

text \<open>
  The table before the data rows: \<open>num_experiments + 1\<close> rows of 6 cells, the style, the
  header row and the column widths. Both loops index the six cells of a row with the six
  positions of \<open>headers\<close> and \<open>widths\<close>, so every index is in range.
\<close>

definition header_row :: "cell list \<Rightarrow> cell list" where
  "header_row header_cells =
     foldl (\<lambda>cells (idx, header). cells[idx := header_cell (cells ! idx) header])
           header_cells (enumerate 0 headers)"

definition set_widths :: "cell list list \<Rightarrow> cell list list" where
  "set_widths rows =
     foldl (\<lambda>rows (idx, width). map (\<lambda>row. row[idx := (row ! idx)\<lparr>c_width := Some width\<rparr>]) rows)
           rows (enumerate 0 widths)"

definition experiment_table :: "nat \<Rightarrow> table" where
  "experiment_table num_experiments =
     (let t = (add_table (num_experiments + 1) 6)\<lparr>t_style := Some ''Table Grid''\<rparr>;
          rows = t_rows t;
          rows = rows[0 := header_row (rows ! 0)]
      in t\<lparr>t_rows := set_widths rows\<rparr>)"

text \<open>The blocks before the table, after the logo.\<close>

definition title_blocks :: "RecordData \<Rightarrow> block list" where
  "title_blocks data =
     [Paragraph \<lparr>p_alignment = Some CENTER,
                 p_runs = [(new_run (course_title data))\<lparr>r_bold := True, r_size := Some 14\<rparr>]\<rparr>,
      Paragraph new_paragraph]"

text \<open>The borderless table of the student's details.\<close>

definition details_cell :: "string \<Rightarrow> alignment option \<Rightarrow> cell" where
  "details_cell s a =
     new_cell\<lparr>c_paragraphs := [\<lparr>p_alignment = a, p_runs = [(new_run s)\<lparr>r_size := Some 11\<rparr>]\<rparr>],
              c_tcPr := [TcBorders (map (\<lambda>border_name. (border_name, ''none''))
                           [''top'', ''left'', ''bottom'', ''right'', ''insideH'', ''insideV''])]\<rparr>"

definition details_table :: "RecordData \<Rightarrow> table" where
  "details_table data =
     (add_table 2 2)\<lparr>t_autofit := False,
        t_rows := [[details_cell (''Name: '' @ student_name data) None,
                    details_cell (''Register Number: '' @ register_number data) (Some RIGHT)],
                   [details_cell ''Date:'' None,
                    details_cell ''Learner's Signature:'' (Some RIGHT)]]\<rparr>"

text \<open>The blocks after the table.\<close>

definition closing_blocks :: "RecordData \<Rightarrow> block list" where
  "closing_blocks data =
     [Paragraph new_paragraph,
      Paragraph new_paragraph,
      Paragraph (new_paragraph\<lparr>p_runs :=
        [(new_run ''I confirm that the experiments and GitHub links provided are entirely my own work.'')
           \<lparr>r_bold := True\<rparr>]\<rparr>),
      Paragraph new_paragraph,
      Table (details_table data)]"

definition output_filename :: "RecordData \<Rightarrow> string" where
  "output_filename data = register_number data @ ''_Lab_Record.docx''"

definition docx_media_type :: string where
  "docx_media_type = ''application/vnd.openxmlformats-officedocument.wordprocessingml.document''"

text \<open>
  The cleanup loop: each file of \<open>qr_images\<close> is removed if it exists, and an exception
  of the removal is passed over.
\<close>

definition remove_quietly :: "filesystem \<Rightarrow> string \<Rightarrow> filesystem" where
  "remove_quietly fs qr_file =
     (if path_exists fs qr_file
      then (case os_remove fs qr_file of Inl e \<Rightarrow> fs | Inr fs1 \<Rightarrow> fs1)
      else fs)"

definition cleanup :: "filesystem \<Rightarrow> string list \<Rightarrow> filesystem" where
  "cleanup fs qr_images = foldl remove_quietly fs qr_images"

text \<open>
  \<open>generate_docx\<close>. An exception before \<open>qr_images\<close> is bound (the logo) meets a handler
  that has nothing to clean; every later exception, and the success path, runs the cleanup
  loop. Every exception leaves as a 500.
\<close>

definition generate_docx ::
  "(string \<Rightarrow> nat option) \<Rightarrow> filesystem \<Rightarrow> RecordData \<Rightarrow> filesystem \<times> (exn + file_response)" where
  "generate_docx best_fit fs data =
     (case add_logo fs logo_files of
        Inl e \<Rightarrow> (fs, Inl (HTTPException 500 (Formatted ''Error: '' e)))
      | Inr (logo_blocks, logo_exists) \<Rightarrow>
          let spacer = (if logo_exists then [Paragraph new_paragraph] else []);
              num_experiments = length (experiments data);
              t = experiment_table num_experiments
          in (case fill_rows best_fit 0 (experiments data) fs [] (t_rows t) of
                (fs1, qr_images, Inl e) \<Rightarrow>
                  (cleanup fs1 qr_images, Inl (HTTPException 500 (Formatted ''Error: '' e)))
              | (fs1, qr_images, Inr rows) \<Rightarrow>
                  let doc = \<lparr>d_margins = Some (50, 100, 100, 100),
                             d_body = logo_blocks @ spacer @ title_blocks data
                                      @ [Table (t\<lparr>t_rows := rows\<rparr>)] @ closing_blocks data\<rparr>
                  in (case write_file fs1 (output_filename data) (DocxFile doc) of
                        (fs2, Some e) \<Rightarrow>
                          (cleanup fs2 qr_images, Inl (HTTPException 500 (Formatted ''Error: '' e)))
                      | (fs2, None) \<Rightarrow>
                          (cleanup fs2 qr_images,
                           Inr \<lparr>fr_path = output_filename data,
                                fr_filename = output_filename data,
                                fr_media_type = docx_media_type\<rparr>))))"

section \<open>The logo resolution in the words of the specification\<close>

text \<open>
  The first recognised logo file found, checked in the order png, jpg, jpeg; and the logo
  block, the picture centered at 7 inches followed by one blank paragraph.
\<close>

definition resolve_spec :: "filesystem \<Rightarrow> string option" where
  "resolve_spec fs =
     (if path_exists fs ''college_logo.png'' then Some ''college_logo.png''
      else if path_exists fs ''college_logo.jpg'' then Some ''college_logo.jpg''
      else if path_exists fs ''college_logo.jpeg'' then Some ''college_logo.jpeg''
      else None)"

definition logo_block_spec :: "picture \<Rightarrow> block list" where
  "logo_block_spec img =
     [Paragraph \<lparr>p_alignment = Some CENTER,
                 p_runs = [\<lparr>r_text = [], r_bold = False, r_size = None, r_color = None,
                            r_underline = False, r_picture = Some (img, 700)\<rparr>]\<rparr>,
      Paragraph \<lparr>p_alignment = None, p_runs = []\<rparr>]"

section \<open>Example states and requests\<close>

definition empty_disk :: filesystem where
  "empty_disk = \<lparr>files = Map.empty, can_write = (\<lambda>path. True),
                 write_completes = (\<lambda>path. True), can_remove = (\<lambda>path. True)\<rparr>"

definition text_upload :: upload_file where
  "text_upload = \<lparr>uf_filename = Some ''notes.txt'', uf_content_type = Some ''text/plain'',
                   uf_file = Bytes [104, 105]\<rparr>"

definition gif_upload :: upload_file where
  "gif_upload = \<lparr>uf_filename = Some ''logo.gif'', uf_content_type = Some ''image/gif'',
                  uf_file = Bytes [71, 73, 70]\<rparr>"

definition capital_upload :: upload_file where
  "capital_upload = \<lparr>uf_filename = Some ''PNG'', uf_content_type = Some ''image/png'',
                      uf_file = ImageFile PNG (Bitmap 1 1 [0])\<rparr>"

definition nodot_upload :: upload_file where
  "nodot_upload = \<lparr>uf_filename = Some ''Logo'', uf_content_type = Some ''image/png'',
                    uf_file = ImageFile PNG (Bitmap 1 1 [0])\<rparr>"

definition broken_jpeg_upload :: upload_file where
  "broken_jpeg_upload = \<lparr>uf_filename = Some ''scan.jpeg'', uf_content_type = Some ''image/jpeg'',
                          uf_file = Bytes [0]\<rparr>"

definition photo_jpg_upload :: upload_file where
  "photo_jpg_upload = \<lparr>uf_filename = Some ''logo.jpg'', uf_content_type = Some ''image/jpeg'',
                        uf_file = ImageFile JPEG (Bitmap 2 2 [1, 2, 3, 4])\<rparr>"

definition sample_fit :: "string \<Rightarrow> nat option" where
  "sample_fit payload =
     (if length payload \<le> 17 then Some 1 else if length payload \<le> 32 then Some 2 else None)"

definition sample_request :: RecordData where
  "sample_request =
     \<lparr>course_title = ''Data Structures Lab'', student_name = ''Asha Rao'',
      register_number = ''21CS045'',
      experiments = [\<lparr>e_title = ''Stack Implementation'', e_date = ''2024-01-10'',
                      e_github = ''https://github.com/asha/stack''\<rparr>]\<rparr>"

definition logo_disk :: filesystem where
  "logo_disk = empty_disk\<lparr>files := [''college_logo.jpg'' \<mapsto> ImageFile JPEG (Bitmap 2 2 [1, 2, 3, 4])]\<rparr>"

definition overflow_request :: RecordData where
  "overflow_request =
     sample_request\<lparr>experiments :=
       [\<lparr>e_title = ''Stack Implementation'', e_date = ''2024-01-10'',
         e_github = ''https://github.com/asha/stack''\<rparr>,
        \<lparr>e_title = ''Queue Implementation'', e_date = [],
         e_github = ''https://github.com/asha/a-repository-with-a-long-name''\<rparr>]\<rparr>"

text \<open>A disk on which \<open>qr_0.png\<close> can be opened but the write to it does not complete.\<close>

definition full_disk :: filesystem where
  "full_disk = empty_disk\<lparr>write_completes := (\<lambda>path. path \<noteq> ''qr_0.png'')\<rparr>"

section \<open>Properties of the string functions\<close>

lemmas lower_eval =
  lower_def lower_char_def ascii_uppercase_def ascii_lowercase_def
  latin1_uppercase_def latin1_lowercase_def

lemma str_split_nonempty: "str_split sep s \<noteq> []"
  by (induction s) (auto split: list.splits)

lemma str_split_no_sep: "sep \<notin> set s \<Longrightarrow> str_split sep s = [s]"
  by (induction s) auto

section \<open>Properties of the logo upload\<close>

text \<open>Whatever goes wrong in an upload, the caller sees status 500.\<close>

lemma upload_logo_failure_status:
  "snd (upload_logo fs file) = Inl e \<Longrightarrow> status_code e = Some 500"
  by (auto simp: upload_logo_def split: prod.splits sum.splits)

lemma upload_logo_success_try:
  "upload_logo fs file = (fs', Inr response) \<Longrightarrow> upload_logo_try fs file = (fs', Inr response)"
  by (auto simp: upload_logo_def split: prod.splits sum.splits)

lemma Image_open_written:
  "Image_open (fs\<lparr>files := (files fs)(path \<mapsto> data)\<rparr>) path = Inr img
     \<Longrightarrow> \<exists>fmt. data = ImageFile fmt img"
  by (auto simp: Image_open_def split: content.splits)

lemma write_file_None:
  "write_file fs path data = (fs1, None) \<longleftrightarrow>
     can_write fs path \<and> write_completes fs path
     \<and> fs1 = fs\<lparr>files := (files fs)(path \<mapsto> data)\<rparr>"
  by (auto simp: write_file_def)

lemma upload_logo_try_converted:
  assumes run: "upload_logo_try fs file = (fs', Inr response)"
    and name: "uf_filename file = Some filename"
    and ext: "lower (last (str_split (CHR ''.'') filename)) = ext"
    and jpeg: "ext \<in> set [''jpg'', ''jpeg'']"
    and path: "logo_path = ''college_logo.'' @ ext"
  shows "\<exists>fmt img. uf_file file = ImageFile fmt img
           \<and> files fs' = (files fs)(''college_logo.png'' \<mapsto> ImageFile PNG img, logo_path := None)
           \<and> ur_filename response = ''college_logo.png''"
proof -
  have allowed: "ext \<in> set [''png'', ''jpg'', ''jpeg'']"
    using jpeg by auto
  have diff: "logo_path \<noteq> ''college_logo.png''"
    using jpeg path by auto
  obtain content_type where ct: "uf_content_type file = Some content_type"
    using run by (cases "uf_content_type file") (auto simp: upload_logo_try_def)
  have img_ct: "startswith content_type ''image/''"
    using run ct by (auto simp: upload_logo_try_def split: if_splits)
  obtain fs1 e1 where w1: "write_file fs logo_path (uf_file file) = (fs1, e1)"
    by (cases "write_file fs logo_path (uf_file file)")
  have body: "upload_logo_try fs file =
     (case e1 of
        Some e \<Rightarrow> (fs1, Inl e)
      | None \<Rightarrow>
          (case Image_open fs1 logo_path of
             Inl e \<Rightarrow> (fs1, Inl e)
           | Inr img \<Rightarrow>
               (case write_file fs1 ''college_logo.png'' (ImageFile PNG img) of
                  (fs2, Some e) \<Rightarrow> (fs2, Inl e)
                | (fs2, None) \<Rightarrow>
                    (case os_remove fs2 logo_path of
                       Inl e \<Rightarrow> (fs2, Inl e)
                     | Inr fs3 \<Rightarrow>
                         (fs3, Inr \<lparr>ur_message = ''Logo uploaded successfully'',
                                    ur_filename = ''college_logo.png''\<rparr>)))))"
    using ct img_ct name ext allowed jpeg path w1
    by (simp add: upload_logo_try_def Let_def del: set_simps
        cong: sum.case_cong option.case_cong)
  from body run have none1: "e1 = None"
    by (cases e1) auto
  with w1 have fs1: "fs1 = fs\<lparr>files := (files fs)(logo_path \<mapsto> uf_file file)\<rparr>"
    by (simp add: write_file_None)
  from body run none1 obtain img where op: "Image_open fs1 logo_path = Inr img"
    by (cases "Image_open fs1 logo_path") auto
  from op obtain fmt where up: "uf_file file = ImageFile fmt img"
    unfolding fs1 by (auto dest: Image_open_written)
  obtain fs2 e2 where w2: "write_file fs1 ''college_logo.png'' (ImageFile PNG img) = (fs2, e2)"
    by (cases "write_file fs1 ''college_logo.png'' (ImageFile PNG img)")
  from body run none1 op w2 have none2: "e2 = None"
    by (cases e2) auto
  with w2 have fs2: "fs2 = fs1\<lparr>files := (files fs1)(''college_logo.png'' \<mapsto> ImageFile PNG img)\<rparr>"
    by (simp add: write_file_None)
  from body run none1 op w2 none2 obtain fs3 where rm: "os_remove fs2 logo_path = Inr fs3"
    and res: "fs' = fs3" "response = \<lparr>ur_message = ''Logo uploaded successfully'',
                                          ur_filename = ''college_logo.png''\<rparr>"
    by (cases "os_remove fs2 logo_path") auto
  from rm have "files fs3 = (files fs2)(logo_path := None)"
    by (auto simp: os_remove_def split: if_splits)
  then have "files fs' = (files fs)(''college_logo.png'' \<mapsto> ImageFile PNG img, logo_path := None)"
    using res diff by (auto simp: fs2 fs1)
  with up res show ?thesis by simp
qed

text \<open>
  C3. An upload whose content type is not an image, or whose extension is outside png, jpg
  and jpeg, is meant to fail with a client error: the block raises status 400 with a
  readable message. The handler around the block catches that exception like any other, so
  the caller receives status 500; the 400 and its message survive only inside the detail
  text. Evaluated here for a text file and for a GIF.
\<close>

theorem upload_logo_rejections_are_500:
  "upload_logo empty_disk text_upload =
     (empty_disk, Inl (HTTPException 500 (Formatted ''Error uploading logo: ''
        (HTTPException 400 (Literal ''File must be an image'')))))
   \<and> upload_logo empty_disk gif_upload =
     (empty_disk, Inl (HTTPException 500 (Formatted ''Error uploading logo: ''
        (HTTPException 400 (Literal ''Only PNG, JPG, JPEG files allowed'')))))"
  by (simp add: upload_logo_def upload_logo_try_def text_upload_def gif_upload_def lower_eval)

text \<open>
  C10, as stated, fails: a file name without a dot that is not exactly \<open>png\<close>, \<open>jpg\<close> or
  \<open>jpeg\<close> is accepted when its lowercase form is one of them. The upload named \<open>PNG\<close>
  succeeds and is stored as \<open>college_logo.png\<close>.
\<close>

theorem upload_logo_capital_name_accepted:
  "uf_filename capital_upload = Some ''PNG''
   \<and> CHR ''.'' \<notin> set ''PNG''
   \<and> ''PNG'' \<notin> {''png'', ''jpg'', ''jpeg''}
   \<and> snd (upload_logo empty_disk capital_upload) =
         Inr \<lparr>ur_message = ''Logo uploaded successfully'', ur_filename = ''college_logo.png''\<rparr>
   \<and> files (fst (upload_logo empty_disk capital_upload)) ''college_logo.png'' =
         Some (ImageFile PNG (Bitmap 1 1 [0]))"
  by (simp add: upload_logo_def upload_logo_try_def capital_upload_def empty_disk_def
      write_file_def lower_eval Let_def)

text \<open>
  C10, amended. For a file name without a dot the derived extension is the whole lowercased
  name. Unless that lowercased name is \<open>png\<close>, \<open>jpg\<close> or \<open>jpeg\<close>, the upload fails and the
  store is left as it was, and when the content type passed the image check the exception
  raised is the one of the extension check.
\<close>

theorem upload_logo_no_dot:
  assumes "uf_filename file = Some filename" and "CHR ''.'' \<notin> set filename"
  shows "lower (last (str_split (CHR ''.'') filename)) = lower filename
     \<and> (lower filename \<notin> {''png'', ''jpg'', ''jpeg''} \<longrightarrow>
          fst (upload_logo fs file) = fs \<and> isl (snd (upload_logo fs file))
          \<and> (\<forall>content_type.
                uf_content_type file = Some content_type \<and> startswith content_type ''image/'' \<longrightarrow>
                upload_logo_try fs file =
                  (fs, Inl (HTTPException 400 (Literal ''Only PNG, JPG, JPEG files allowed'')))))"
  using assms
  by (auto simp: upload_logo_def upload_logo_try_def str_split_no_sep split: option.splits)

theorem upload_logo_no_dot_witness:
  "uf_filename nodot_upload = Some ''Logo''
   \<and> CHR ''.'' \<notin> set ''Logo''
   \<and> lower ''Logo'' = ''logo''
   \<and> lower (last (str_split (CHR ''.'') ''Logo'')) = lower ''Logo''
   \<and> fst (upload_logo empty_disk nodot_upload) = empty_disk
   \<and> isl (snd (upload_logo empty_disk nodot_upload))
   \<and> upload_logo_try empty_disk nodot_upload =
        (empty_disk, Inl (HTTPException 400 (Literal ''Only PNG, JPG, JPEG files allowed'')))"
proof -
  have name: "uf_filename nodot_upload = Some ''Logo''"
    by (simp add: nodot_upload_def)
  have nodot: "CHR ''.'' \<notin> set ''Logo''"
    by simp
  have low: "lower ''Logo'' = ''logo''"
    by (simp add: lower_eval)
  have ctype: "uf_content_type nodot_upload = Some ''image/png'' \<and> startswith ''image/png'' ''image/''"
    by (simp add: nodot_upload_def)
  from upload_logo_no_dot [OF name nodot, of empty_disk] low ctype name nodot
  show ?thesis by simp
qed

text \<open>
  C4, as stated, fails: after a successful upload of a \<open>.jpg\<close> a file with the other JPEG
  extension can remain. A \<open>.jpeg\<close> upload that the decoder rejects has already written
  \<open>college_logo.jpeg\<close> when it fails, and the following successful \<open>.jpg\<close> upload removes
  only \<open>college_logo.jpg\<close>.
\<close>

theorem upload_logo_residual_jpeg:
  "upload_logo empty_disk broken_jpeg_upload =
     (empty_disk\<lparr>files := [''college_logo.jpeg'' \<mapsto> Bytes [0]]\<rparr>,
      Inl (HTTPException 500 (Formatted ''Error uploading logo: '' UnidentifiedImageError)))
   \<and> snd (upload_logo (empty_disk\<lparr>files := [''college_logo.jpeg'' \<mapsto> Bytes [0]]\<rparr>) photo_jpg_upload) =
       Inr \<lparr>ur_message = ''Logo uploaded successfully'', ur_filename = ''college_logo.png''\<rparr>
   \<and> files (fst (upload_logo (empty_disk\<lparr>files := [''college_logo.jpeg'' \<mapsto> Bytes [0]]\<rparr>)
                   photo_jpg_upload)) ''college_logo.jpeg'' = Some (Bytes [0])"
  by (simp add: upload_logo_def upload_logo_try_def broken_jpeg_upload_def photo_jpg_upload_def
      empty_disk_def write_file_def Image_open_def os_remove_def lower_eval Let_def)

text \<open>
  C4, amended. A successful upload with extension \<open>jpg\<close> or \<open>jpeg\<close> stores the uploaded
  picture as \<open>college_logo.png\<close>, leaves no file under the name it wrote for that extension,
  answers with the PNG name, and touches no other path. So if no other logo file was there
  before, \<open>college_logo.png\<close> is the only logo file afterwards.
\<close>

theorem upload_logo_jpeg_canonical:
  assumes "upload_logo fs file = (fs', Inr response)"
    and "uf_filename file = Some filename"
    and "ext = lower (last (str_split (CHR ''.'') filename))"
    and "ext = ''jpg'' \<or> ext = ''jpeg''"
  shows "(\<exists>fmt img. uf_file file = ImageFile fmt img
            \<and> files fs' ''college_logo.png'' = Some (ImageFile PNG img))
     \<and> files fs' (''college_logo.'' @ ext) = None
     \<and> ur_filename response = ''college_logo.png''
     \<and> (\<forall>path. path \<noteq> ''college_logo.png'' \<and> path \<noteq> ''college_logo.'' @ ext \<longrightarrow>
            files fs' path = files fs path)
     \<and> ((\<forall>path \<in> set logo_files. path \<noteq> ''college_logo.png'' \<and> path \<noteq> ''college_logo.'' @ ext \<longrightarrow>
            files fs path = None) \<longrightarrow>
          filter (path_exists fs') logo_files = [''college_logo.png''])"
proof -
  have jpeg: "ext \<in> set [''jpg'', ''jpeg'']"
    using assms(4) by auto
  from upload_logo_try_converted [OF upload_logo_success_try [OF assms(1)] assms(2) assms(3) [symmetric] jpeg refl]
  obtain fmt img where up: "uf_file file = ImageFile fmt img"
    and fs': "files fs' = (files fs)(''college_logo.png'' \<mapsto> ImageFile PNG img, ''college_logo.'' @ ext := None)"
    and res: "ur_filename response = ''college_logo.png''"
    by blast
  have diff: "''college_logo.'' @ ext \<noteq> ''college_logo.png''"
    using assms(4) by auto
  have a: "files fs' ''college_logo.png'' = Some (ImageFile PNG img)"
    using fs' diff by simp
  have b: "files fs' (''college_logo.'' @ ext) = None"
    using fs' by simp
  have c: "\<forall>path. path \<noteq> ''college_logo.png'' \<and> path \<noteq> ''college_logo.'' @ ext \<longrightarrow>
            files fs' path = files fs path"
    using fs' by simp
  have d: "filter (path_exists fs') logo_files = [''college_logo.png'']"
    if "\<forall>path \<in> set logo_files. path \<noteq> ''college_logo.png'' \<and> path \<noteq> ''college_logo.'' @ ext \<longrightarrow>
            files fs path = None"
  proof (cases "ext = ''jpg''")
    case True
    with that a b c show ?thesis
      by (simp add: logo_files_def path_exists_def)
  next
    case False
    with assms(4) have "ext = ''jpeg''" by simp
    with that a b c show ?thesis
      by (simp add: logo_files_def path_exists_def)
  qed
  from up a b res c d show ?thesis by blast
qed

theorem upload_logo_jpeg_canonical_witness:
  "upload_logo empty_disk photo_jpg_upload =
     (empty_disk\<lparr>files := [''college_logo.png'' \<mapsto> ImageFile PNG (Bitmap 2 2 [1, 2, 3, 4])]\<rparr>,
      Inr \<lparr>ur_message = ''Logo uploaded successfully'', ur_filename = ''college_logo.png''\<rparr>)
   \<and> uf_filename photo_jpg_upload = Some ''logo.jpg''
   \<and> lower (last (str_split (CHR ''.'') ''logo.jpg'')) = ''jpg''
   \<and> filter (path_exists (empty_disk\<lparr>files := [''college_logo.png'' \<mapsto>
         ImageFile PNG (Bitmap 2 2 [1, 2, 3, 4])]\<rparr>)) logo_files = [''college_logo.png'']"
proof -
  have run: "upload_logo empty_disk photo_jpg_upload =
     (empty_disk\<lparr>files := [''college_logo.png'' \<mapsto> ImageFile PNG (Bitmap 2 2 [1, 2, 3, 4])]\<rparr>,
      Inr \<lparr>ur_message = ''Logo uploaded successfully'', ur_filename = ''college_logo.png''\<rparr>)"
    by (simp add: upload_logo_def upload_logo_try_def photo_jpg_upload_def
        empty_disk_def write_file_def Image_open_def os_remove_def lower_eval Let_def)
  have name: "uf_filename photo_jpg_upload = Some ''logo.jpg''"
    by (simp add: photo_jpg_upload_def)
  have ext: "''jpg'' = lower (last (str_split (CHR ''.'') ''logo.jpg''))"
    by (simp add: lower_eval)
  have none: "\<forall>path \<in> set logo_files.
      path \<noteq> ''college_logo.png'' \<and> path \<noteq> ''college_logo.'' @ ''jpg'' \<longrightarrow> files empty_disk path = None"
    by (simp add: empty_disk_def)
  from upload_logo_jpeg_canonical [OF run name ext] none run name ext
  show ?thesis by simp
qed

section \<open>Properties of the row loop and the cleanup\<close>

lemma create_qr_code_Inr:
  "create_qr_code best_fit url size_px = Inr data \<longleftrightarrow>
     (\<exists>v. best_fit url = Some v \<and> 0 < size_px
          \<and> data = ImageFile PNG (Resampled (QRSymbol url v 10 2) size_px size_px))"
  by (auto simp: create_qr_code_def Let_def split: option.splits)

lemma add_picture_written:
  "add_picture (fs\<lparr>files := (files fs)(path \<mapsto> ImageFile fmt img)\<rparr>) path width r
     = Inr (r\<lparr>r_picture := Some (img, width)\<rparr>)"
  by (simp add: add_picture_def)

lemma cell_text_set_cell_text [simp]: "cell_text (set_cell_text c s) = s"
  by (simp add: cell_text_def set_cell_text_def paragraph_text_def new_run_def)

lemma cell_text_set_first_alignment [simp]:
  "cell_text (set_first_alignment c a) = cell_text c"
  by (cases "c_paragraphs c")
     (simp_all add: cell_text_def set_first_alignment_def paragraph_text_def)

lemma cell_text_set_cell_border [simp]: "cell_text (set_cell_border c kwargs) = cell_text c"
  by (simp add: cell_text_def set_cell_border_def)

text \<open>What a pass of the loop that does not raise has done: it has written one QR file,
  recorded its name and replaced the row.\<close>

lemma fill_row_cases:
  assumes "fill_row best_fit idx exp fs qr_images rows = (fs1, qr_images1, res)"
  shows "isl res
       \<or> (\<exists>data cells.
             can_write fs (qr_filename idx) \<and> write_completes fs (qr_filename idx)
           \<and> fs1 = fs\<lparr>files := (files fs)(qr_filename idx \<mapsto> data)\<rparr>
           \<and> qr_images1 = qr_images @ [qr_filename idx]
           \<and> res = Inr (rows[idx + 1 := cells])
           \<and> idx + 1 < length rows
           \<and> length cells = length (rows ! (idx + 1))
           \<and> cell_text (cells ! 0) = zfill 2 (str_nat (idx + 1)))"
proof (cases "length rows \<le> idx + 1 \<or> length (rows ! (idx + 1)) < 3")
  case True
  with assms have "isl res"
    by (auto simp: fill_row_def Let_def split: if_splits)
  then show ?thesis ..
next
  case ok: False
  show ?thesis
  proof (cases "create_qr_code best_fit (e_github exp) 150")
    case (Inl e)
    with assms ok have "isl res"
      by (auto simp: fill_row_def Let_def)
    then show ?thesis ..
  next
    case (Inr data)
    then obtain v where data: "data = ImageFile PNG (Resampled (QRSymbol (e_github exp) v 10 2) 150 150)"
      by (auto simp: create_qr_code_Inr)
    obtain fsW eW where w: "write_file fs (qr_filename idx) data = (fsW, eW)"
      by (cases "write_file fs (qr_filename idx) data")
    show ?thesis
    proof (cases eW)
      case (Some e)
      with assms ok Inr w have "isl res"
        by (auto simp: fill_row_def Let_def)
      then show ?thesis ..
    next
      case None
      with w have perms: "can_write fs (qr_filename idx)" "write_completes fs (qr_filename idx)"
        and fsW: "fsW = fs\<lparr>files := (files fs)(qr_filename idx \<mapsto> data)\<rparr>"
        by (simp_all add: write_file_None)
      show ?thesis
      proof (cases "length (rows ! (idx + 1)) < 6")
        case short: True
        from assms ok Inr w None short have "isl res"
          unfolding data fsW
          by (auto simp: fill_row_def Let_def add_picture_written split: if_splits)
        then show ?thesis ..
      next
        case wide: False
        define r where "r = (new_run [])\<lparr>r_picture := Some (Resampled (QRSymbol (e_github exp) v 10 2) 150 150, 75)\<rparr>"
        define cells where "cells = map (\<lambda>c. set_cell_border c all_edges)
           ((rows ! (idx + 1))
              [0 := set_first_alignment
                      (set_cell_text (rows ! (idx + 1) ! 0) (zfill 2 (str_nat (idx + 1)))) CENTER,
               1 := set_cell_text (rows ! (idx + 1) ! 1) (if e_date exp \<noteq> [] then e_date exp else []),
               2 := title_cell (rows ! (idx + 1) ! 2) exp,
               3 := qr_cell (rows ! (idx + 1) ! 3) r,
               4 := set_cell_text (rows ! (idx + 1) ! 4) [],
               5 := set_cell_text (rows ! (idx + 1) ! 5) []])"
        from assms ok Inr w None wide
        have eq: "(fs1, qr_images1, res) =
                  (fs\<lparr>files := (files fs)(qr_filename idx \<mapsto> data)\<rparr>,
                   qr_images @ [qr_filename idx], Inr (rows[idx + 1 := cells]))"
          unfolding data fsW cells_def r_def
          by (simp add: fill_row_def Let_def add_picture_written nth_list_update)
        have len: "length cells = length (rows ! (idx + 1))"
          by (simp add: cells_def)
        have ctext: "cell_text (cells ! 0) = zfill 2 (str_nat (idx + 1))"
        proof -
          from wide have pos: "0 < length (rows ! (idx + 1))" by arith
          then show ?thesis
            by (simp add: cells_def nth_list_update)
        qed
        from ok have inside: "idx + 1 < length rows"
          by simp
        from eq len ctext inside perms show ?thesis
          by (intro disjI2 exI [of _ data] conjI exI [of _ cells]) simp_all
      qed
    qed
  qed
qed

lemma fill_rows_shape:
  "fill_rows best_fit idx exps fs qr_images rows = (fs1, qr_images1, Inr rows1)
     \<Longrightarrow> map length rows1 = map length rows"
proof (induction exps arbitrary: idx fs qr_images rows)
  case Nil
  then show ?case by simp
next
  case (Cons exp exps)
  obtain fsA qiA resA where step: "fill_row best_fit idx exp fs qr_images rows = (fsA, qiA, resA)"
    by (cases "fill_row best_fit idx exp fs qr_images rows") auto
  with Cons.prems obtain rowsA where resA: "resA = Inr rowsA"
    by (cases resA) auto
  from fill_row_cases [OF step] resA obtain cells
    where rowsA: "rowsA = rows[idx + 1 := cells]"
      and len: "length cells = length (rows ! (idx + 1))" and inside: "idx + 1 < length rows"
    by auto
  have "map length rowsA = map length rows"
    using len inside unfolding rowsA by (simp add: map_update list_update_same_conv)
  moreover from Cons.prems step resA
  have "fill_rows best_fit (idx + 1) exps fsA qiA rowsA = (fs1, qr_images1, Inr rows1)"
    by simp
  ultimately show ?case
    using Cons.IH by simp
qed

lemma fill_rows_ordinals:
  "fill_rows best_fit idx exps fs qr_images rows = (fs1, qr_images1, Inr rows1)
     \<Longrightarrow> (\<forall>j \<le> idx. rows1 ! j = rows ! j)
       \<and> (\<forall>k < length exps. cell_text (rows1 ! (idx + k + 1) ! 0) = zfill 2 (str_nat (idx + k + 1)))"
proof (induction exps arbitrary: idx fs qr_images rows)
  case Nil
  then show ?case by simp
next
  case (Cons exp exps)
  obtain fsA qiA resA where step: "fill_row best_fit idx exp fs qr_images rows = (fsA, qiA, resA)"
    by (cases "fill_row best_fit idx exp fs qr_images rows") auto
  with Cons.prems obtain rowsA where resA: "resA = Inr rowsA"
    by (cases resA) auto
  from fill_row_cases [OF step] resA obtain cells
    where rowsA: "rowsA = rows[idx + 1 := cells]"
      and inside: "idx + 1 < length rows"
      and ordinal: "cell_text (cells ! 0) = zfill 2 (str_nat (idx + 1))"
    by auto
  from Cons.prems step resA
  have rest: "fill_rows best_fit (idx + 1) exps fsA qiA rowsA = (fs1, qr_images1, Inr rows1)"
    by simp
  from Cons.IH [OF rest]
  have keep: "\<forall>j \<le> idx + 1. rows1 ! j = rowsA ! j"
    and later: "\<forall>k < length exps.
        cell_text (rows1 ! (idx + 1 + k + 1) ! 0) = zfill 2 (str_nat (idx + 1 + k + 1))"
    by blast+
  have a: "\<forall>j \<le> idx. rows1 ! j = rows ! j"
    using keep by (simp add: rowsA)
  have "rows1 ! (idx + 1) = cells"
    using keep inside by (simp add: rowsA)
  then have first: "cell_text (rows1 ! (idx + 0 + 1) ! 0) = zfill 2 (str_nat (idx + 0 + 1))"
    using ordinal by simp
  have b: "cell_text (rows1 ! (idx + k + 1) ! 0) = zfill 2 (str_nat (idx + k + 1))"
    if "k < length (exp # exps)" for k
  proof (cases k)
    case 0
    with first show ?thesis by simp
  next
    case (Suc k')
    with that have "k' < length exps" by simp
    with later have "cell_text (rows1 ! (idx + 1 + k' + 1) ! 0) = zfill 2 (str_nat (idx + 1 + k' + 1))"
      by blast
    with Suc show ?thesis by (simp add: ac_simps)
  qed
  from a b show ?case by blast
qed

text \<open>When the loop runs to its end, the files it has touched are the QR files it has
  recorded, one for each row.\<close>

lemma fill_rows_files:
  "fill_rows best_fit idx exps fs qr_images rows = (fs1, qr_images1, Inr rows1)
     \<Longrightarrow> qr_images1 = qr_images @ map qr_filename [idx..<idx + length exps]
       \<and> (\<forall>path. path \<notin> qr_filename ` {idx..<idx + length exps} \<longrightarrow>
             files fs1 path = files fs path)
       \<and> can_write fs1 = can_write fs \<and> write_completes fs1 = write_completes fs
       \<and> can_remove fs1 = can_remove fs"
proof (induction exps arbitrary: idx fs qr_images rows)
  case Nil
  then show ?case by auto
next
  case (Cons exp exps)
  obtain fsA qiA resA where step: "fill_row best_fit idx exp fs qr_images rows = (fsA, qiA, resA)"
    by (cases "fill_row best_fit idx exp fs qr_images rows") auto
  with Cons.prems obtain rowsA where resA: "resA = Inr rowsA"
    by (cases resA) auto
  from fill_row_cases [OF step] resA obtain data
    where fsA: "fsA = fs\<lparr>files := (files fs)(qr_filename idx \<mapsto> data)\<rparr>"
      and qiA: "qiA = qr_images @ [qr_filename idx]"
    by auto
  from Cons.prems step resA
  have rest: "fill_rows best_fit (idx + 1) exps fsA qiA rowsA = (fs1, qr_images1, Inr rows1)"
    by simp
  from Cons.IH [OF rest]
  have qi: "qr_images1 = qiA @ map qr_filename [idx + 1..<idx + 1 + length exps]"
    and frame: "\<forall>path. path \<notin> qr_filename ` {idx + 1..<idx + 1 + length exps} \<longrightarrow>
                  files fs1 path = files fsA path"
    and perms: "can_write fs1 = can_write fsA" "write_completes fs1 = write_completes fsA"
      "can_remove fs1 = can_remove fsA"
    by blast+
  have range: "{idx..<idx + Suc (length exps)} = insert idx {idx + 1..<idx + 1 + length exps}"
    by auto
  have upt: "[idx..<idx + Suc (length exps)] = idx # [idx + 1..<idx + 1 + length exps]"
    by (simp add: upt_rec)
  have 1: "qr_images1 = qr_images @ map qr_filename [idx..<idx + Suc (length exps)]"
    unfolding qi qiA upt by (simp only: list.map append_assoc append_Cons append_Nil)
  have 2: "\<forall>path. path \<notin> qr_filename ` {idx..<idx + Suc (length exps)} \<longrightarrow>
             files fs1 path = files fs path"
    using frame fsA unfolding range by auto
  have 3: "can_write fs1 = can_write fs \<and> write_completes fs1 = write_completes fs
         \<and> can_remove fs1 = can_remove fs"
    using perms fsA by simp
  from 1 2 3 show ?case
    by simp
qed

lemma remove_quietly_files:
  "files (remove_quietly fs q) path
     = (if path = q \<and> can_remove fs q then None else files fs path)"
  by (auto simp: remove_quietly_def os_remove_def path_exists_def)

lemma remove_quietly_perms:
  "can_remove (remove_quietly fs q) = can_remove fs \<and> can_write (remove_quietly fs q) = can_write fs"
  by (auto simp: remove_quietly_def os_remove_def path_exists_def)

lemma cleanup_files:
  "files (cleanup fs qs) path
     = (if path \<in> set qs \<and> can_remove fs path then None else files fs path)"
  unfolding cleanup_def
proof (induction qs arbitrary: fs)
  case Nil
  show ?case by simp
next
  case (Cons q qs)
  show ?case
    by (auto simp: Cons.IH remove_quietly_files remove_quietly_perms)
qed

section \<open>Properties of the document generation\<close>

lemma foldl_widths_shape:
  "map length (foldl (\<lambda>rows (idx, width). map (\<lambda>row. row[idx := (row ! idx)\<lparr>c_width := Some width\<rparr>]) rows) rows ws)
     = map length rows"
  by (induction ws arbitrary: rows) (auto simp: o_def)

lemma set_widths_shape: "map length (set_widths rows) = map length rows"
  unfolding set_widths_def by (rule foldl_widths_shape)

lemma foldl_header_length:
  "length (foldl (\<lambda>cells (idx, header). cells[idx := header_cell (cells ! idx) header]) cells hs)
     = length cells"
  by (induction hs arbitrary: cells) auto

lemma header_row_length: "length (header_row cells) = length cells"
  unfolding header_row_def by (rule foldl_header_length)

lemma experiment_table_shape:
  "map length (t_rows (experiment_table n)) = replicate (n + 1) 6"
  by (simp add: experiment_table_def add_table_def Let_def set_widths_shape map_update
      header_row_length list_update_same_conv)

lemma fill_row_success:
  assumes "idx + 1 < length rows" and "6 \<le> length (rows ! (idx + 1))"
    and "best_fit (e_github exp) = Some v"
    and "can_write fs (qr_filename idx)" and "write_completes fs (qr_filename idx)"
  shows "\<exists>data cells. fill_row best_fit idx exp fs qr_images rows =
           (fs\<lparr>files := (files fs)(qr_filename idx \<mapsto> data)\<rparr>,
            qr_images @ [qr_filename idx], Inr (rows[idx + 1 := cells]))
         \<and> length cells = length (rows ! (idx + 1))"
proof -
  have qr: "create_qr_code best_fit (e_github exp) 150
              = Inr (ImageFile PNG (Resampled (QRSymbol (e_github exp) v 10 2) 150 150))"
    using assms(3) by (simp add: create_qr_code_def)
  obtain fs1 qi1 res where step: "fill_row best_fit idx exp fs qr_images rows = (fs1, qi1, res)"
    by (cases "fill_row best_fit idx exp fs qr_images rows") auto
  have "\<not> isl res"
    using step assms qr
    by (auto simp: fill_row_def Let_def write_file_def add_picture_written)
  with fill_row_cases [OF step] step show ?thesis
    by (cases res) auto
qed

lemma fill_rows_success:
  assumes "idx + length exps < length rows" and "\<forall>row \<in> set rows. 6 \<le> length row"
    and "\<forall>exp \<in> set exps. best_fit (e_github exp) \<noteq> None"
    and "\<forall>path. can_write fs path \<and> write_completes fs path"
  shows "\<exists>fs1 qr_images1 rows1.
           fill_rows best_fit idx exps fs qr_images rows = (fs1, qr_images1, Inr rows1)"
  using assms
proof (induction exps arbitrary: idx fs qr_images rows)
  case Nil
  then show ?case by simp
next
  case (Cons exp exps)
  from Cons.prems obtain v where v: "best_fit (e_github exp) = Some v"
    by auto
  have inside: "idx + 1 < length rows"
    using Cons.prems(1) by simp
  then have wide: "6 \<le> length (rows ! (idx + 1))"
    using Cons.prems(2) by (metis nth_mem)
  have writable: "can_write fs (qr_filename idx)"
    and completes: "write_completes fs (qr_filename idx)"
    using Cons.prems(4) by simp_all
  from fill_row_success [where best_fit = best_fit and qr_images = qr_images,
      OF inside wide v writable completes]
  obtain data cells where
    step: "fill_row best_fit idx exp fs qr_images rows =
             (fs\<lparr>files := (files fs)(qr_filename idx \<mapsto> data)\<rparr>,
              qr_images @ [qr_filename idx], Inr (rows[idx + 1 := cells]))"
    and len: "length cells = length (rows ! (idx + 1))"
    by blast
  have 1: "(idx + 1) + length exps < length (rows[idx + 1 := cells])"
    using Cons.prems(1) by simp
  have 2: "\<forall>row \<in> set (rows[idx + 1 := cells]). 6 \<le> length row"
    using Cons.prems(2) len wide by (auto dest!: set_update_subset_insert [THEN subsetD])
  have 3: "\<forall>exp \<in> set exps. best_fit (e_github exp) \<noteq> None"
    using Cons.prems(3) by simp
  have 4: "\<forall>path. can_write (fs\<lparr>files := (files fs)(qr_filename idx \<mapsto> data)\<rparr>) path
               \<and> write_completes (fs\<lparr>files := (files fs)(qr_filename idx \<mapsto> data)\<rparr>) path"
    using Cons.prems(4) by simp
  from Cons.IH [OF 1 2 3 4] step show ?case
    by simp
qed


lemma generate_docx_success:
  assumes "generate_docx best_fit fs data = (fs', Inr response)"
  shows "\<exists>logo_blocks logo_exists fs1 qr_images rows doc.
           add_logo fs logo_files = Inr (logo_blocks, logo_exists)
         \<and> fill_rows best_fit 0 (experiments data) fs []
               (t_rows (experiment_table (length (experiments data)))) = (fs1, qr_images, Inr rows)
         \<and> doc = \<lparr>d_margins = Some (50, 100, 100, 100),
                   d_body = logo_blocks @ (if logo_exists then [Paragraph new_paragraph] else [])
                            @ title_blocks data
                            @ [Table ((experiment_table (length (experiments data)))\<lparr>t_rows := rows\<rparr>)]
                            @ closing_blocks data\<rparr>
         \<and> can_write fs1 (output_filename data)
         \<and> fs' = cleanup (fs1\<lparr>files := (files fs1)(output_filename data \<mapsto> DocxFile doc)\<rparr>) qr_images
         \<and> response = \<lparr>fr_path = output_filename data, fr_filename = output_filename data,
                        fr_media_type = docx_media_type\<rparr>"
  using assms
  by (auto simp: generate_docx_def Let_def write_file_def
      split: sum.splits prod.splits if_splits)

lemma qr_filename_not_output: "qr_filename i \<noteq> output_filename data"
proof
  assume "qr_filename i = output_filename data"
  then have "last (qr_filename i) = last (output_filename data)"
    by simp
  then show False
    by (simp add: qr_filename_def output_filename_def)
qed

lemma add_logo_resolve:
  assumes "add_logo fs logo_files = Inr (logo_blocks, logo_exists)"
  shows "case resolve_spec fs of
           None \<Rightarrow> logo_blocks = [] \<and> \<not> logo_exists
         | Some logo_file \<Rightarrow>
             \<exists>fmt img. files fs logo_file = Some (ImageFile fmt img)
               \<and> logo_blocks @ (if logo_exists then [Paragraph new_paragraph] else [])
                   = logo_block_spec img"
  using assms
  by (auto simp: logo_files_def resolve_spec_def add_picture_def logo_block_spec_def
      new_run_def new_paragraph_def path_exists_def
      split: if_splits option.splits content.splits)

lemma doc_tables_append: "doc_tables (xs @ ys) = doc_tables xs @ doc_tables ys"
  by (induction xs rule: doc_tables.induct) simp_all

lemma doc_tables_logo:
  assumes "add_logo fs logo_files = Inr (logo_blocks, logo_exists)"
  shows "doc_tables (logo_blocks @ (if logo_exists then [Paragraph new_paragraph] else [])) = []"
  using add_logo_resolve [OF assms]
  by (cases "resolve_spec fs") (auto simp: logo_block_spec_def)

lemma str_nat_small: "n < 10 \<Longrightarrow> str_nat n = [digit_char n]"
  by (subst str_nat.simps) simp

lemma str_nat_large: "10 \<le> n \<Longrightarrow> str_nat n = str_nat (n div 10) @ [digit_char (n mod 10)]"
  by (subst str_nat.simps) simp

lemma str_nat_nonempty: "str_nat n \<noteq> []"
  by (cases "n < 10") (simp_all add: str_nat_small str_nat_large)

lemma str_nat_two_digits:
  "10 \<le> n \<Longrightarrow> n \<le> 99 \<Longrightarrow> str_nat n = [digit_char (n div 10), digit_char (n mod 10)]"
  by (simp add: str_nat_large str_nat_small)

lemma str_nat_length:
  assumes "10 \<le> n"
  shows "2 \<le> length (str_nat n)"
proof -
  have "str_nat n = str_nat (n div 10) @ [digit_char (n mod 10)]"
    using assms by (rule str_nat_large)
  moreover have "1 \<le> length (str_nat (n div 10))"
    using str_nat_nonempty [of "n div 10"] by (cases "str_nat (n div 10)") simp_all
  ultimately show ?thesis
    by simp
qed

lemma digit_char_digit: "d < 10 \<Longrightarrow> digit_char d \<in> set ''0123456789''"
  unfolding digit_char_def by (rule nth_mem) simp

lemma digit_char_not_sign:
  assumes "d < 10"
  shows "digit_char d \<noteq> CHR ''+'' \<and> digit_char d \<noteq> CHR ''-''"
  using digit_char_digit [OF assms] by auto

lemma zfill_ordinal:
  "zfill 2 (str_nat n) = (if n < 10 then [CHR ''0'', digit_char n] else str_nat n)"
proof (cases "n < 10")
  case True
  then show ?thesis
    using digit_char_not_sign [of n]
    by (simp add: zfill_def str_nat_small)
next
  case False
  then have "2 \<le> length (str_nat n)"
    by (simp add: str_nat_length)
  with False show ?thesis
    by (cases "str_nat n") (simp_all add: zfill_def)
qed

lemma generate_docx_succeeds:
  assumes logo: "add_logo fs logo_files = Inr (logo_blocks, logo_exists)"
    and fits: "\<forall>exp \<in> set (experiments data). best_fit (e_github exp) \<noteq> None"
    and writable: "\<forall>path. can_write fs path \<and> write_completes fs path"
  shows "\<exists>fs'. generate_docx best_fit fs data =
           (fs', Inr \<lparr>fr_path = output_filename data, fr_filename = output_filename data,
                      fr_media_type = docx_media_type\<rparr>)"
proof -
  define n where "n = length (experiments data)"
  have rows: "0 + length (experiments data) < length (t_rows (experiment_table n))"
    using arg_cong [OF experiment_table_shape [of n], of length] by (simp add: n_def)
  have wide: "\<forall>row \<in> set (t_rows (experiment_table n)). 6 \<le> length row"
  proof
    fix row assume "row \<in> set (t_rows (experiment_table n))"
    then have "length row \<in> set (map length (t_rows (experiment_table n)))"
      by simp
    then show "6 \<le> length row"
      unfolding experiment_table_shape by auto
  qed
  from fill_rows_success [OF rows wide fits writable, of "[]"]
  obtain fs1 qr_images rows1 where
    loop: "fill_rows best_fit 0 (experiments data) fs [] (t_rows (experiment_table n))
             = (fs1, qr_images, Inr rows1)"
    by auto
  from fill_rows_files [OF loop] writable
  have "can_write fs1 (output_filename data)" "write_completes fs1 (output_filename data)"
    by auto
  with logo loop show ?thesis
    by (simp add: generate_docx_def Let_def write_file_def n_def)
qed

lemma generate_docx_saved:
  assumes "generate_docx best_fit fs data = (fs', Inr response)"
  shows "\<exists>logo_blocks logo_exists fs1 qr_images rows.
           add_logo fs logo_files = Inr (logo_blocks, logo_exists)
         \<and> fill_rows best_fit 0 (experiments data) fs []
               (t_rows (experiment_table (length (experiments data)))) = (fs1, qr_images, Inr rows)
         \<and> fr_path response = output_filename data
         \<and> files fs' (output_filename data) =
             Some (DocxFile \<lparr>d_margins = Some (50, 100, 100, 100),
                   d_body = logo_blocks @ (if logo_exists then [Paragraph new_paragraph] else [])
                            @ title_blocks data
                            @ [Table ((experiment_table (length (experiments data)))\<lparr>t_rows := rows\<rparr>)]
                            @ closing_blocks data\<rparr>)
         \<and> (\<forall>path. path \<noteq> output_filename data \<longrightarrow>
               files fs' path = (if path \<in> set qr_images \<and> can_remove fs path then None
                                 else files fs1 path))"
proof -
  from generate_docx_success [OF assms]
  obtain logo_blocks logo_exists fs1 qr_images rows doc where
    logo: "add_logo fs logo_files = Inr (logo_blocks, logo_exists)"
    and loop: "fill_rows best_fit 0 (experiments data) fs []
                 (t_rows (experiment_table (length (experiments data)))) = (fs1, qr_images, Inr rows)"
    and doc: "doc = \<lparr>d_margins = Some (50, 100, 100, 100),
                   d_body = logo_blocks @ (if logo_exists then [Paragraph new_paragraph] else [])
                            @ title_blocks data
                            @ [Table ((experiment_table (length (experiments data)))\<lparr>t_rows := rows\<rparr>)]
                            @ closing_blocks data\<rparr>"
    and fs': "fs' = cleanup (fs1\<lparr>files := (files fs1)(output_filename data \<mapsto> DocxFile doc)\<rparr>) qr_images"
    and response: "response = \<lparr>fr_path = output_filename data, fr_filename = output_filename data,
                        fr_media_type = docx_media_type\<rparr>"
    by (elim exE conjE) (rule that)
  from fill_rows_files [OF loop] have names: "set qr_images \<subseteq> range qr_filename"
    and perms: "can_remove fs1 = can_remove fs"
    by auto
  from names have "output_filename data \<notin> set qr_images"
    using qr_filename_not_output [of _ data] by (metis imageE subsetD)
  then have saved: "files fs' (output_filename data) = Some (DocxFile doc)"
    by (simp add: fs' cleanup_files)
  have others: "\<forall>path. path \<noteq> output_filename data \<longrightarrow>
               files fs' path = (if path \<in> set qr_images \<and> can_remove fs path then None
                                 else files fs1 path)"
    by (simp add: fs' cleanup_files perms)
  from logo loop response saved others show ?thesis
    unfolding doc
    by (intro exI [of _ logo_blocks] exI [of _ logo_exists] exI [of _ fs1]
        exI [of _ qr_images] exI [of _ rows]) simp
qed

text \<open>
  C1. When the generation succeeds, the saved document holds two tables: the experiment
  table, with one row more than there are experiments (none included) and six cells in
  every row, and the details table.
\<close>

theorem table_has_header_and_one_row_per_experiment:
  assumes "generate_docx best_fit fs data = (fs', Inr response)"
  shows "\<exists>doc t. files fs' (fr_path response) = Some (DocxFile doc)
           \<and> doc_tables (d_body doc) = [t, details_table data]
           \<and> length (t_rows t) = length (experiments data) + 1
           \<and> (\<forall>row \<in> set (t_rows t). length row = 6)"
proof -
  from generate_docx_success [OF assms]
  obtain logo_blocks logo_exists fs1 qr_images rows doc where
    logo: "add_logo fs logo_files = Inr (logo_blocks, logo_exists)"
    and loop: "fill_rows best_fit 0 (experiments data) fs []
                 (t_rows (experiment_table (length (experiments data)))) = (fs1, qr_images, Inr rows)"
    and doc: "doc = \<lparr>d_margins = Some (50, 100, 100, 100),
                   d_body = logo_blocks @ (if logo_exists then [Paragraph new_paragraph] else [])
                            @ title_blocks data
                            @ [Table ((experiment_table (length (experiments data)))\<lparr>t_rows := rows\<rparr>)]
                            @ closing_blocks data\<rparr>"
    and fs': "fs' = cleanup (fs1\<lparr>files := (files fs1)(output_filename data \<mapsto> DocxFile doc)\<rparr>) qr_images"
    and response: "response = \<lparr>fr_path = output_filename data, fr_filename = output_filename data,
                        fr_media_type = docx_media_type\<rparr>"
    by (elim exE conjE) (rule that)
  define t where "t = (experiment_table (length (experiments data)))\<lparr>t_rows := rows\<rparr>"
  from fill_rows_files [OF loop] have "set qr_images \<subseteq> range qr_filename"
    by auto
  then have "output_filename data \<notin> set qr_images"
    using qr_filename_not_output [of _ data] by (metis imageE subsetD)
  then have saved: "files fs' (fr_path response) = Some (DocxFile doc)"
    by (simp add: fs' response cleanup_files)
  have tables: "doc_tables (d_body doc) = [t, details_table data]"
    using doc_tables_logo [OF logo]
    by (simp add: doc t_def doc_tables_append title_blocks_def closing_blocks_def)
  have lengths: "map length rows = replicate (length (experiments data) + 1) 6"
    using fill_rows_shape [OF loop] by (simp add: experiment_table_shape)
  have rows: "t_rows t = rows"
    by (simp add: t_def)
  have count: "length rows = length (experiments data) + 1"
    using arg_cong [OF lengths, of length] by simp
  have six: "length row = 6" if "row \<in> set rows" for row
  proof -
    from that have "length row \<in> set (map length rows)"
      by simp
    then show ?thesis
      unfolding lengths by auto
  qed
  from rows count six
  have shape: "length (t_rows t) = length (experiments data) + 1
                  \<and> (\<forall>row \<in> set (t_rows t). length row = 6)"
    by simp
  from saved tables shape show ?thesis
    by (intro exI [of _ doc] exI [of _ t]) simp
qed

theorem table_has_header_and_one_row_per_experiment_witness:
  "snd (generate_docx sample_fit empty_disk sample_request) =
     Inr \<lparr>fr_path = ''21CS045_Lab_Record.docx'', fr_filename = ''21CS045_Lab_Record.docx'',
          fr_media_type = docx_media_type\<rparr>
   \<and> (\<exists>doc t. files (fst (generate_docx sample_fit empty_disk sample_request))
                  ''21CS045_Lab_Record.docx'' = Some (DocxFile doc)
          \<and> doc_tables (d_body doc) = [t, details_table sample_request]
          \<and> map length (t_rows t) = [6, 6])"
proof -
  have logo: "add_logo empty_disk logo_files = Inr ([], False)"
    by (simp add: logo_files_def path_exists_def empty_disk_def)
  have fits: "\<forall>exp \<in> set (experiments sample_request). sample_fit (e_github exp) \<noteq> None"
    by (simp add: sample_request_def sample_fit_def)
  have writable: "\<forall>path. can_write empty_disk path \<and> write_completes empty_disk path"
    by (simp add: empty_disk_def)
  have name: "output_filename sample_request = ''21CS045_Lab_Record.docx''"
    by (simp add: output_filename_def sample_request_def)
  from generate_docx_succeeds [OF logo fits writable] obtain fs' where
    run: "generate_docx sample_fit empty_disk sample_request =
            (fs', Inr \<lparr>fr_path = ''21CS045_Lab_Record.docx'', fr_filename = ''21CS045_Lab_Record.docx'',
                      fr_media_type = docx_media_type\<rparr>)"
    unfolding name by blast
  from table_has_header_and_one_row_per_experiment [OF run] obtain doc t where
    saved: "files fs' ''21CS045_Lab_Record.docx'' = Some (DocxFile doc)"
    and tables: "doc_tables (d_body doc) = [t, details_table sample_request]"
    and count: "length (t_rows t) = length (experiments sample_request) + 1"
    and six: "\<forall>row \<in> set (t_rows t). length row = 6"
    by auto
  from count have two: "length (t_rows t) = 2"
    by (simp add: sample_request_def)
  have "map length (t_rows t) = [6, 6]"
  proof (rule nth_equalityI)
    show "length (map length (t_rows t)) = length [6, 6 :: nat]"
      using two by simp
    fix i assume "i < length (map length (t_rows t))"
    then have i: "i < 2" and "t_rows t ! i \<in> set (t_rows t)"
      using two by simp_all
    with six have "length (t_rows t ! i) = 6" by blast
    with i two show "map length (t_rows t) ! i = [6, 6] ! i"
      by (cases i) (simp_all add: less_Suc_eq numeral_2_eq_2)
  qed
  with run saved tables show ?thesis
    by auto
qed

text \<open>
  C2. When the generation succeeds, the first cell of the row of the experiment at 1-based
  position \<open>i\<close> reads: a zero and the digit of \<open>i\<close> below ten; the two digits of \<open>i\<close>
  from 10 to 99; and the unpadded decimal of \<open>i\<close>, at least two characters long, from 100.
\<close>

theorem ordinal_cell_is_zero_padded:
  assumes "generate_docx best_fit fs data = (fs', Inr response)"
    and "1 \<le> i" and "i \<le> length (experiments data)"
  shows "\<exists>doc t rest. files fs' (fr_path response) = Some (DocxFile doc)
           \<and> doc_tables (d_body doc) = t # rest
           \<and> cell_text (t_rows t ! i ! 0) = zfill 2 (str_nat i)
           \<and> (i < 10 \<longrightarrow> cell_text (t_rows t ! i ! 0) = [CHR ''0'', digit_char i])
           \<and> (10 \<le> i \<and> i \<le> 99 \<longrightarrow>
                 cell_text (t_rows t ! i ! 0) = [digit_char (i div 10), digit_char (i mod 10)])
           \<and> (100 \<le> i \<longrightarrow>
                 cell_text (t_rows t ! i ! 0) = str_nat i \<and> 2 \<le> length (str_nat i))"
proof -
  from generate_docx_saved [OF assms(1)]
  obtain logo_blocks logo_exists fs1 qr_images rows where
    logo: "add_logo fs logo_files = Inr (logo_blocks, logo_exists)"
    and loop: "fill_rows best_fit 0 (experiments data) fs []
                 (t_rows (experiment_table (length (experiments data)))) = (fs1, qr_images, Inr rows)"
    and path: "fr_path response = output_filename data"
    and saved: "files fs' (output_filename data) =
             Some (DocxFile \<lparr>d_margins = Some (50, 100, 100, 100),
                   d_body = logo_blocks @ (if logo_exists then [Paragraph new_paragraph] else [])
                            @ title_blocks data
                            @ [Table ((experiment_table (length (experiments data)))\<lparr>t_rows := rows\<rparr>)]
                            @ closing_blocks data\<rparr>)"
    by (elim exE conjE) (rule that)
  define t where "t = (experiment_table (length (experiments data)))\<lparr>t_rows := rows\<rparr>"
  define doc where "doc = \<lparr>d_margins = Some (50, 100, 100, 100),
                   d_body = logo_blocks @ (if logo_exists then [Paragraph new_paragraph] else [])
                            @ title_blocks data @ [Table t] @ closing_blocks data\<rparr>"
  have 1: "files fs' (fr_path response) = Some (DocxFile doc)"
    using saved path by (simp add: doc_def t_def)
  have 2: "doc_tables (d_body doc) = t # [details_table data]"
    using doc_tables_logo [OF logo]
    by (simp add: doc_def doc_tables_append title_blocks_def closing_blocks_def)
  obtain k where k: "i = k + 1" "k < length (experiments data)"
    using assms(2,3) by (cases i) auto
  from fill_rows_ordinals [OF loop] k have "cell_text (rows ! (0 + k + 1) ! 0) = zfill 2 (str_nat (0 + k + 1))"
    by blast
  then have 3: "cell_text (t_rows t ! i ! 0) = zfill 2 (str_nat i)"
    using k by (simp add: t_def)
  have 4: "i < 10 \<longrightarrow> cell_text (t_rows t ! i ! 0) = [CHR ''0'', digit_char i]"
    unfolding 3 by (simp add: zfill_ordinal)
  have 5: "10 \<le> i \<and> i \<le> 99 \<longrightarrow>
                 cell_text (t_rows t ! i ! 0) = [digit_char (i div 10), digit_char (i mod 10)]"
  proof
    assume range: "10 \<le> i \<and> i \<le> 99"
    then have "zfill 2 (str_nat i) = str_nat i"
      by (simp add: zfill_ordinal)
    with range show "cell_text (t_rows t ! i ! 0) = [digit_char (i div 10), digit_char (i mod 10)]"
      unfolding 3 by (simp add: str_nat_two_digits)
  qed
  have 6: "100 \<le> i \<longrightarrow> cell_text (t_rows t ! i ! 0) = str_nat i \<and> 2 \<le> length (str_nat i)"
    unfolding 3 by (simp add: zfill_ordinal str_nat_length)
  from 1 2 3 4 5 6 show ?thesis
    by (intro exI [of _ doc] exI [of _ t] exI [of _ "[details_table data]"]) simp
qed

theorem ordinal_cell_is_zero_padded_witness:
  "snd (generate_docx sample_fit empty_disk sample_request) =
     Inr \<lparr>fr_path = ''21CS045_Lab_Record.docx'', fr_filename = ''21CS045_Lab_Record.docx'',
          fr_media_type = docx_media_type\<rparr>
   \<and> (1::nat) \<le> 1 \<and> 1 \<le> length (experiments sample_request)
   \<and> (\<exists>doc t rest. files (fst (generate_docx sample_fit empty_disk sample_request))
                  ''21CS045_Lab_Record.docx'' = Some (DocxFile doc)
          \<and> doc_tables (d_body doc) = t # rest
          \<and> cell_text (t_rows t ! 1 ! 0) = ''01'')"
proof -
  have logo: "add_logo empty_disk logo_files = Inr ([], False)"
    by (simp add: logo_files_def path_exists_def empty_disk_def)
  have fits: "\<forall>exp \<in> set (experiments sample_request). sample_fit (e_github exp) \<noteq> None"
    by (simp add: sample_request_def sample_fit_def)
  have writable: "\<forall>path. can_write empty_disk path \<and> write_completes empty_disk path"
    by (simp add: empty_disk_def)
  have name: "output_filename sample_request = ''21CS045_Lab_Record.docx''"
    by (simp add: output_filename_def sample_request_def)
  from generate_docx_succeeds [OF logo fits writable] obtain fs' where
    run: "generate_docx sample_fit empty_disk sample_request =
            (fs', Inr \<lparr>fr_path = ''21CS045_Lab_Record.docx'', fr_filename = ''21CS045_Lab_Record.docx'',
                      fr_media_type = docx_media_type\<rparr>)"
    unfolding name by blast
  have lo: "(1::nat) \<le> 1" by simp
  have hi: "1 \<le> length (experiments sample_request)"
    by (simp add: sample_request_def)
  have zero: "[CHR ''0'', digit_char 1] = ''01''"
    by (simp add: digit_char_def)
  from ordinal_cell_is_zero_padded [OF run lo hi] obtain doc t rest where
    "files fs' ''21CS045_Lab_Record.docx'' = Some (DocxFile doc)"
    "doc_tables (d_body doc) = t # rest"
    "cell_text (t_rows t ! 1 ! 0) = [CHR ''0'', digit_char 1]"
    by auto
  with run hi zero show ?thesis
    by auto
qed

text \<open>
  C7. For a payload that fits a symbol and a positive size, the image returned is a PNG of
  exactly that size in both directions, whatever the payload and whatever the version, and
  so the natural size, of the symbol.
\<close>

theorem create_qr_code_size:
  assumes "best_fit url = Some version" and "0 < size_px"
  shows "\<exists>img. create_qr_code best_fit url size_px = Inr (ImageFile PNG img)
           \<and> picture_size img = (size_px, size_px)"
  using assms by (simp add: create_qr_code_def)

theorem create_qr_code_size_witness:
  "sample_fit ''https://github.com/asha/stack'' = Some 2 \<and> (0::int) < 150
   \<and> picture_size (QRSymbol ''https://github.com/asha/stack'' 2 10 2) = (290, 290)
   \<and> (\<exists>img. create_qr_code sample_fit ''https://github.com/asha/stack'' 150 = Inr (ImageFile PNG img)
          \<and> picture_size img = (150, 150))"
proof -
  have fit: "sample_fit ''https://github.com/asha/stack'' = Some 2"
    by (simp add: sample_fit_def)
  have pos: "(0::int) < 150" by simp
  from create_qr_code_size [where best_fit = sample_fit and size_px = 150, OF fit pos] fit
  show ?thesis
    by simp
qed

lemma resolve_spec_find: "resolve_spec fs = List.find (path_exists fs) logo_files"
  by (simp add: resolve_spec_def logo_files_def)

text \<open>
  C5. The logo is looked up under the recognised names in the order png, jpg, jpeg, which
  is the order of the list the loop walks. When the generation succeeds and a name exists,
  the saved document starts with the picture of the first such file, centered and 7 inches
  wide, and one blank paragraph; when none exists it starts directly with the course title,
  with neither logo paragraph nor spacer.
\<close>

theorem logo_is_first_found_or_absent:
  assumes "generate_docx best_fit fs data = (fs', Inr response)"
  shows "resolve_spec fs = List.find (path_exists fs) logo_files
       \<and> (\<exists>doc t. files fs' (fr_path response) = Some (DocxFile doc)
            \<and> ((resolve_spec fs = None
                  \<and> d_body doc = title_blocks data @ Table t # closing_blocks data)
               \<or> (\<exists>logo_file fmt img. resolve_spec fs = Some logo_file
                     \<and> files fs logo_file = Some (ImageFile fmt img)
                     \<and> d_body doc = logo_block_spec img @ title_blocks data
                                      @ Table t # closing_blocks data)))"
proof -
  from generate_docx_saved [OF assms]
  obtain logo_blocks logo_exists fs1 qr_images rows where
    logo: "add_logo fs logo_files = Inr (logo_blocks, logo_exists)"
    and path: "fr_path response = output_filename data"
    and saved: "files fs' (output_filename data) =
             Some (DocxFile \<lparr>d_margins = Some (50, 100, 100, 100),
                   d_body = logo_blocks @ (if logo_exists then [Paragraph new_paragraph] else [])
                            @ title_blocks data
                            @ [Table ((experiment_table (length (experiments data)))\<lparr>t_rows := rows\<rparr>)]
                            @ closing_blocks data\<rparr>)"
    by (elim exE conjE) (rule that)
  define t where "t = (experiment_table (length (experiments data)))\<lparr>t_rows := rows\<rparr>"
  define front where "front = logo_blocks @ (if logo_exists then [Paragraph new_paragraph] else [])"
  define doc where "doc = \<lparr>d_margins = Some (50, 100, 100, 100),
                   d_body = front @ title_blocks data @ Table t # closing_blocks data\<rparr>"
  have 1: "files fs' (fr_path response) = Some (DocxFile doc)"
    using saved path by (simp add: doc_def t_def front_def)
  have body: "d_body doc = front @ title_blocks data @ Table t # closing_blocks data"
    by (simp add: doc_def)
  have 2: "(resolve_spec fs = None
              \<and> d_body doc = title_blocks data @ Table t # closing_blocks data)
         \<or> (\<exists>logo_file fmt img. resolve_spec fs = Some logo_file
               \<and> files fs logo_file = Some (ImageFile fmt img)
               \<and> d_body doc = logo_block_spec img @ title_blocks data
                                @ Table t # closing_blocks data)"
  proof (cases "resolve_spec fs")
    case None
    with add_logo_resolve [OF logo] have "front = []"
      by (simp add: front_def)
    with None body show ?thesis by simp
  next
    case (Some logo_file)
    with add_logo_resolve [OF logo] obtain fmt img where
      "files fs logo_file = Some (ImageFile fmt img)" "front = logo_block_spec img"
      by (auto simp: front_def)
    with Some body show ?thesis by auto
  qed
  from 1 2 resolve_spec_find show ?thesis
    by (intro conjI exI [of _ doc] exI [of _ t]) simp_all
qed

theorem logo_is_first_found_or_absent_witness:
  "snd (generate_docx sample_fit logo_disk sample_request) =
     Inr \<lparr>fr_path = ''21CS045_Lab_Record.docx'', fr_filename = ''21CS045_Lab_Record.docx'',
          fr_media_type = docx_media_type\<rparr>
   \<and> resolve_spec logo_disk = Some ''college_logo.jpg''
   \<and> (\<exists>doc t. files (fst (generate_docx sample_fit logo_disk sample_request))
                  ''21CS045_Lab_Record.docx'' = Some (DocxFile doc)
          \<and> d_body doc = logo_block_spec (Bitmap 2 2 [1, 2, 3, 4]) @ title_blocks sample_request
                           @ Table t # closing_blocks sample_request)"
proof -
  have logo: "add_logo logo_disk logo_files =
                Inr ([Paragraph \<lparr>p_alignment = Some CENTER,
                       p_runs = [(new_run [])\<lparr>r_picture := Some (Bitmap 2 2 [1, 2, 3, 4], 700)\<rparr>]\<rparr>], True)"
    by (simp add: logo_files_def path_exists_def logo_disk_def empty_disk_def add_picture_def)
  have fits: "\<forall>exp \<in> set (experiments sample_request). sample_fit (e_github exp) \<noteq> None"
    by (simp add: sample_request_def sample_fit_def)
  have writable: "\<forall>path. can_write logo_disk path \<and> write_completes logo_disk path"
    by (simp add: logo_disk_def empty_disk_def)
  have name: "output_filename sample_request = ''21CS045_Lab_Record.docx''"
    by (simp add: output_filename_def sample_request_def)
  from generate_docx_succeeds [OF logo fits writable] obtain fs' where
    run: "generate_docx sample_fit logo_disk sample_request =
            (fs', Inr \<lparr>fr_path = ''21CS045_Lab_Record.docx'', fr_filename = ''21CS045_Lab_Record.docx'',
                      fr_media_type = docx_media_type\<rparr>)"
    unfolding name by blast
  have resolved: "resolve_spec logo_disk = Some ''college_logo.jpg''"
    by (simp add: resolve_spec_def path_exists_def logo_disk_def empty_disk_def)
  have stored: "files logo_disk ''college_logo.jpg'' = Some (ImageFile JPEG (Bitmap 2 2 [1, 2, 3, 4]))"
    by (simp add: logo_disk_def empty_disk_def)
  from logo_is_first_found_or_absent [OF run] resolved stored obtain doc t where
    "files fs' ''21CS045_Lab_Record.docx'' = Some (DocxFile doc)"
    "d_body doc = logo_block_spec (Bitmap 2 2 [1, 2, 3, 4]) @ title_blocks sample_request
                    @ Table t # closing_blocks sample_request"
    by auto
  with run resolved show ?thesis
    by auto
qed

text \<open>
  C8. When the generation succeeds, the document is on disk under the register number
  followed by \<open>_Lab_Record.docx\<close>, that is the path the response serves, and it is still
  there when the operation returns: the only files that were present before and are gone
  afterwards are QR files of the rows.
\<close>

theorem output_document_is_kept:
  assumes "generate_docx best_fit fs data = (fs', Inr response)"
  shows "fr_path response = register_number data @ ''_Lab_Record.docx''
       \<and> (\<exists>doc. files fs' (fr_path response) = Some (DocxFile doc))
       \<and> (\<forall>path. files fs path \<noteq> None \<and> files fs' path = None \<longrightarrow>
             path \<in> qr_filename ` {0..<length (experiments data)})"
proof -
  from generate_docx_saved [OF assms]
  obtain logo_blocks logo_exists fs1 qr_images rows doc where
    loop: "fill_rows best_fit 0 (experiments data) fs []
                 (t_rows (experiment_table (length (experiments data)))) = (fs1, qr_images, Inr rows)"
    and path: "fr_path response = output_filename data"
    and saved: "files fs' (output_filename data) = Some (DocxFile doc)"
    and others: "\<forall>path. path \<noteq> output_filename data \<longrightarrow>
               files fs' path = (if path \<in> set qr_images \<and> can_remove fs path then None
                                 else files fs1 path)"
    by (elim exE conjE) (erule (3) that)
  from fill_rows_files [OF loop]
  have names: "qr_images = map qr_filename [0..<length (experiments data)]"
    and frame: "\<forall>path. path \<notin> qr_filename ` {0..<length (experiments data)} \<longrightarrow>
                  files fs1 path = files fs path"
    by auto
  have gone: "path \<in> qr_filename ` {0..<length (experiments data)}"
    if "files fs path \<noteq> None" "files fs' path = None" for path
  proof (rule ccontr)
    assume out: "path \<notin> qr_filename ` {0..<length (experiments data)}"
    from that(2) saved have "path \<noteq> output_filename data"
      by auto
    with others have "files fs' path = (if path \<in> set qr_images \<and> can_remove fs path then None
                                 else files fs1 path)"
      by blast
    with out names have "files fs' path = files fs1 path"
      by simp
    with frame out that show False
      by simp
  qed
  from path saved gone show ?thesis
    by (auto simp: output_filename_def)
qed

theorem output_document_is_kept_witness:
  "snd (generate_docx sample_fit empty_disk sample_request) =
     Inr \<lparr>fr_path = ''21CS045_Lab_Record.docx'', fr_filename = ''21CS045_Lab_Record.docx'',
          fr_media_type = docx_media_type\<rparr>
   \<and> register_number sample_request @ ''_Lab_Record.docx'' = ''21CS045_Lab_Record.docx''
   \<and> (\<exists>doc. files (fst (generate_docx sample_fit empty_disk sample_request))
                  ''21CS045_Lab_Record.docx'' = Some (DocxFile doc))"
proof -
  have logo: "add_logo empty_disk logo_files = Inr ([], False)"
    by (simp add: logo_files_def path_exists_def empty_disk_def)
  have fits: "\<forall>exp \<in> set (experiments sample_request). sample_fit (e_github exp) \<noteq> None"
    by (simp add: sample_request_def sample_fit_def)
  have writable: "\<forall>path. can_write empty_disk path \<and> write_completes empty_disk path"
    by (simp add: empty_disk_def)
  have name: "output_filename sample_request = ''21CS045_Lab_Record.docx''"
    by (simp add: output_filename_def sample_request_def)
  from generate_docx_succeeds [OF logo fits writable] obtain fs' where
    run: "generate_docx sample_fit empty_disk sample_request =
            (fs', Inr \<lparr>fr_path = ''21CS045_Lab_Record.docx'', fr_filename = ''21CS045_Lab_Record.docx'',
                      fr_media_type = docx_media_type\<rparr>)"
    unfolding name by blast
  from output_document_is_kept [OF run] obtain doc where
    "files fs' ''21CS045_Lab_Record.docx'' = Some (DocxFile doc)"
    by auto
  with run name show ?thesis
    by (auto simp: output_filename_def)
qed

lemma fill_row_write_fails:
  assumes "idx + 1 < length rows" and "3 \<le> length (rows ! (idx + 1))"
    and "best_fit (e_github exp) = Some v"
    and "can_write fs (qr_filename idx)" and "\<not> write_completes fs (qr_filename idx)"
  shows "fill_row best_fit idx exp fs qr_images rows =
           (fs\<lparr>files := (files fs)(qr_filename idx \<mapsto> Bytes [])\<rparr>, qr_images, Inl OSError)"
  using assms by (simp add: fill_row_def Let_def create_qr_code_def write_file_def)

text \<open>
  C9. Every QR file the operation created is meant to be gone on every exit. The cleanup
  loops remove the files named in \<open>qr_images\<close>, and a name is added to that list only
  after the block that writes the file. When the write fails after \<open>open\<close> has created the
  file, the operation leaves with status 500 and the file stays on disk: here \<open>qr_0.png\<close>,
  which was absent before the request and whose removal nothing refuses.
\<close>

theorem qr_image_left_after_failed_write:
  "files full_disk ''qr_0.png'' = None
   \<and> can_remove full_disk ''qr_0.png''
   \<and> snd (generate_docx sample_fit full_disk sample_request) =
        Inl (HTTPException 500 (Formatted ''Error: '' OSError))
   \<and> files (fst (generate_docx sample_fit full_disk sample_request)) ''qr_0.png'' =
        Some (Bytes [])"
proof -
  define first where "first = \<lparr>e_title = ''Stack Implementation'', e_date = ''2024-01-10'',
         e_github = ''https://github.com/asha/stack''\<rparr>"
  define rows where "rows = t_rows (experiment_table (length (experiments sample_request)))"
  have exps: "experiments sample_request = [first]"
    by (simp add: sample_request_def first_def)
  have count: "length (experiments sample_request) = 1"
    by (simp add: exps)
  have shape: "map length rows = [6, 6]"
    unfolding rows_def experiment_table_shape count by (simp add: numeral_2_eq_2)
  have len: "length rows = 2"
  proof -
    have "length rows = length (map length rows)" by simp
    also have "\<dots> = 2" unfolding shape by simp
    finally show ?thesis .
  qed
  have row1: "length (rows ! 1) = 6"
  proof -
    have "length (rows ! 1) = map length rows ! 1" by (simp add: len)
    also have "\<dots> = 6" unfolding shape by simp
    finally show ?thesis .
  qed
  have name: "qr_filename 0 = ''qr_0.png''"
    by (simp add: qr_filename_def str_nat.simps digit_char_def)
  have fit: "sample_fit (e_github first) = Some 2"
    by (simp add: sample_fit_def first_def)
  have a: "0 + 1 < length rows" and b: "3 \<le> length (rows ! (0 + 1))"
    using len row1 by simp_all
  have c: "can_write full_disk (qr_filename 0)" and d: "\<not> write_completes full_disk (qr_filename 0)"
    unfolding name by (simp_all add: full_disk_def empty_disk_def)
  have step: "fill_row sample_fit 0 first full_disk [] rows =
                (full_disk\<lparr>files := (files full_disk)(qr_filename 0 \<mapsto> Bytes [])\<rparr>, [], Inl OSError)"
    using a b fit c d by (rule fill_row_write_fails)
  have loop: "fill_rows sample_fit 0 (experiments sample_request) full_disk [] rows =
                (full_disk\<lparr>files := (files full_disk)(qr_filename 0 \<mapsto> Bytes [])\<rparr>, [], Inl OSError)"
    by (simp add: exps step)
  have logo: "add_logo full_disk logo_files = Inr ([], False)"
    by (simp add: logo_files_def path_exists_def full_disk_def empty_disk_def)
  have run: "generate_docx sample_fit full_disk sample_request =
      (full_disk\<lparr>files := (files full_disk)(qr_filename 0 \<mapsto> Bytes [])\<rparr>,
       Inl (HTTPException 500 (Formatted ''Error: '' OSError)))"
    using logo loop [unfolded rows_def] by (simp add: generate_docx_def Let_def cleanup_def)
  have before: "files full_disk ''qr_0.png'' = None" "can_remove full_disk ''qr_0.png''"
    by (simp_all add: full_disk_def empty_disk_def)
  from run before show ?thesis
    by (simp add: name)
qed

text \<open>
  For comparison, an exception later in the same loop: the second experiment's link fits
  no symbol, the first row's file is already recorded, and the handler removes it.
\<close>

lemma qr_image_removed_after_overflow:
  "snd (generate_docx sample_fit empty_disk overflow_request) =
     Inl (HTTPException 500 (Formatted ''Error: '' DataOverflowError))
   \<and> files (fst (generate_docx sample_fit empty_disk overflow_request)) ''qr_0.png'' = None"
proof -
  define first where "first = \<lparr>e_title = ''Stack Implementation'', e_date = ''2024-01-10'',
         e_github = ''https://github.com/asha/stack''\<rparr>"
  define second where "second = \<lparr>e_title = ''Queue Implementation'', e_date = [],
         e_github = ''https://github.com/asha/a-repository-with-a-long-name''\<rparr>"
  define rows where "rows = t_rows (experiment_table (length (experiments overflow_request)))"
  have exps: "experiments overflow_request = [first, second]"
    by (simp add: overflow_request_def first_def second_def)
  have count: "length (experiments overflow_request) = 2"
    by (simp add: exps)
  have shape: "map length rows = [6, 6, 6]"
    unfolding rows_def experiment_table_shape count by (simp add: numeral_3_eq_3)
  have len: "length rows = 3"
  proof -
    have "length rows = length (map length rows)" by simp
    also have "\<dots> = 3" unfolding shape by simp
    finally show ?thesis .
  qed
  have row1: "length (rows ! 1) = 6"
  proof -
    have "length (rows ! 1) = map length rows ! 1" by (simp add: len)
    also have "\<dots> = 6" unfolding shape by simp
    finally show ?thesis .
  qed
  have row2: "length (rows ! Suc (Suc 0)) = 6"
  proof -
    have "length (rows ! Suc (Suc 0)) = map length rows ! Suc (Suc 0)" by (simp add: len)
    also have "\<dots> = 6" unfolding shape by simp
    finally show ?thesis .
  qed
  have fit1: "sample_fit (e_github first) = Some 2"
    by (simp add: sample_fit_def first_def)
  have fit2: "sample_fit (e_github second) = None"
    by (simp add: sample_fit_def second_def)
  have a: "0 + 1 < length rows" and b: "6 \<le> length (rows ! (0 + 1))"
    and c: "can_write empty_disk (qr_filename 0)" and d: "write_completes empty_disk (qr_filename 0)"
    using len row1 by (simp_all add: empty_disk_def)
  from fill_row_success [where best_fit = sample_fit and qr_images = "[]", OF a b fit1 c d]
  obtain content cells where
    step1: "fill_row sample_fit 0 first empty_disk [] rows =
              (empty_disk\<lparr>files := (files empty_disk)(qr_filename 0 \<mapsto> content)\<rparr>,
               [qr_filename 0], Inr (rows[Suc 0 := cells]))"
    by auto
  have step2: "fill_row sample_fit (Suc 0) second
                 (empty_disk\<lparr>files := (files empty_disk)(qr_filename 0 \<mapsto> content)\<rparr>)
                 [qr_filename 0] (rows[Suc 0 := cells]) =
               (empty_disk\<lparr>files := (files empty_disk)(qr_filename 0 \<mapsto> content)\<rparr>,
                [qr_filename 0], Inl DataOverflowError)"
    using len row2 fit2 by (simp add: fill_row_def Let_def create_qr_code_def)
  have loop: "fill_rows sample_fit 0 (experiments overflow_request) empty_disk [] rows =
               (empty_disk\<lparr>files := (files empty_disk)(qr_filename 0 \<mapsto> content)\<rparr>,
                [qr_filename 0], Inl DataOverflowError)"
    using step1 step2 by (simp add: exps)
  have logo: "add_logo empty_disk logo_files = Inr ([], False)"
    by (simp add: logo_files_def path_exists_def empty_disk_def)
  have run: "generate_docx sample_fit empty_disk overflow_request =
      (cleanup (empty_disk\<lparr>files := (files empty_disk)(qr_filename 0 \<mapsto> content)\<rparr>) [qr_filename 0],
       Inl (HTTPException 500 (Formatted ''Error: '' DataOverflowError)))"
    using logo loop [unfolded rows_def] by (simp add: generate_docx_def Let_def)
  have name: "''qr_0.png'' = qr_filename 0"
    by (simp add: qr_filename_def str_nat.simps digit_char_def)
  show ?thesis
    unfolding run name by (simp add: cleanup_files empty_disk_def)
qed

end
